theory Spec2Isabelle
  imports Complex_Main "HOL-Library.Word"
begin

section \<open>NeuroGate: the neuron and synapse models, the command executor and the bridge\<close>

text \<open>
  A shallow embedding of \<^verbatim>\<open>core/neuron.c\<close>, \<^verbatim>\<open>core/synapse.c\<close>,
  \<^verbatim>\<open>runtime/exec.c\<close> and \<^verbatim>\<open>api/bridge.c\<close>.

  Conventions of the embedding:
  \<^item> a C \<^verbatim>\<open>float\<close> is a real number, the finite binary32 values being the numbers of
    \<open>is_binary32\<close>; NaN and the infinities are not modelled. The arithmetic of
    \<^verbatim>\<open>neuron_fire\<close>, \<^verbatim>\<open>synapse_activate\<close> and \<^verbatim>\<open>synapse_update_weight\<close>, whose results
    decide a branch or accumulate in a field, rounds every operation to binary32 (\<open>fl32\<close>,
    to nearest, ties to even, each operation evaluated in single precision); the other
    arithmetic (the potential of \<^verbatim>\<open>neuron_compute\<close>, the sums of the step) is the exact
    one, and the decimal literals there are the decimal numbers;
  \<^item> \<^verbatim>\<open>uint32_t\<close> is \<^typ>\<open>32 word\<close>; an enum whose value is cast from a
    \<^verbatim>\<open>uint32_t\<close> keeps that representation, with its enumerators as constants, so the
    \<^verbatim>\<open>default:\<close> branch of a \<^verbatim>\<open>switch\<close> stays a branch of the model;
  \<^item> a heap object reached through a pointer held in one of the global arrays is the array
    slot itself, and a pointer to it is the index of the slot; the arrays only ever receive
    the non-NULL result of a successful creation, so a slot is never NULL and the
    \<^verbatim>\<open>g_neurons[i] &&\<close> tests of the source are always true;
  \<^item> the answers of the host's \<^verbatim>\<open>malloc\<close> and \<^verbatim>\<open>realloc\<close> are an input
    (\<open>host\<close>), so every allocation-failure return of the source is a branch of the model;
  \<^item> logging has no effect on the state and is dropped.
\<close>

type_synonym uint32 = "32 word"
type_synonym c_float = real

subsection \<open>Binary32 arithmetic\<close>

text \<open>
  The finite binary32 numbers are the \<open>m * 2 ^ k / 2 ^ 149\<close> with \<open>\<bar>m\<bar> < 2 ^ 24\<close> and
  \<open>k \<le> 253\<close>. \<open>spacing k\<close> is the distance between neighbours whose last mantissa bit has
  weight \<open>2 ^ k / 2 ^ 149\<close>; \<open>grid x\<close> is the \<open>k\<close> of the binade of \<open>x\<close> (0 for the
  subnormal numbers), found by the search \<open>grid_from\<close>; \<open>fl32 x\<close> is the multiple of
  \<open>spacing (grid x)\<close> nearest to \<open>x\<close>, the one with an even mantissa when two are equally
  near. A result of magnitude \<open>2 ^ 128\<close> or more stands for an overflow (an infinity of the
  C program).
\<close>

definition round_even :: "real \<Rightarrow> int" where
  "round_even q =
     (let f = \<lfloor>q\<rfloor> in
      if q - of_int f < 1 / 2 then f
      else if q - of_int f > 1 / 2 then f + 1
      else if even f then f else f + 1)"

definition spacing :: "nat \<Rightarrow> real" where
  "spacing k = 2 ^ k / 2 ^ 149"

function grid_from :: "nat \<Rightarrow> real \<Rightarrow> nat" where
  "grid_from k a = (if 253 \<le> k \<or> a < spacing (k + 24) then k else grid_from (Suc k) a)"
  by pat_completeness auto
termination
  by (relation "measure (\<lambda>(k, a). 253 - k)") auto

declare grid_from.simps [simp del]

definition grid :: "real \<Rightarrow> nat" where
  "grid x = grid_from 0 \<bar>x\<bar>"

definition fl32 :: "real \<Rightarrow> real" where
  "fl32 x = of_int (round_even (x / spacing (grid x))) * spacing (grid x)"

definition is_binary32 :: "real \<Rightarrow> bool" where
  "is_binary32 v \<longleftrightarrow>
     (\<exists>(m :: int) (k :: nat). \<bar>m\<bar> < 2 ^ 24 \<and> k \<le> 253 \<and> v = of_int m * spacing k)"

text \<open>\<^verbatim>\<open>expf\<close> of the C library, taken as the correctly rounded exponential.\<close>

definition expf :: "c_float \<Rightarrow> c_float" where
  "expf x = fl32 (exp x)"

subsection \<open>The host allocator (\<^verbatim>\<open>memory/mm.c\<close>)\<close>

record host =
  malloc_ok :: bool
  realloc_ok :: bool
  used_memory :: nat

text \<open>\<^verbatim>\<open>mm_alloc\<close>: a request of zero bytes returns NULL, any other request returns what
  \<^verbatim>\<open>malloc\<close> returns. The result is whether the pointer is non-NULL.\<close>

definition mm_alloc :: "host \<Rightarrow> nat \<Rightarrow> bool" where
  "mm_alloc h sz = (if sz = 0 then False else malloc_ok h)"

text \<open>\<^verbatim>\<open>mm_realloc\<close>: a NULL pointer is \<^verbatim>\<open>mm_alloc\<close>, a zero size frees and returns NULL,
  otherwise the block (whose magic number is intact) goes to \<^verbatim>\<open>realloc\<close>.\<close>

definition mm_realloc :: "host \<Rightarrow> bool \<Rightarrow> nat \<Rightarrow> bool" where
  "mm_realloc h ptr_is_null new_size =
     (if ptr_is_null then mm_alloc h new_size
      else if new_size = 0 then False
      else realloc_ok h)"

text \<open>Object sizes on an LP64 target; only that they are not zero matters.\<close>

definition sizeof_Neuron :: nat where "sizeof_Neuron = 56"
definition sizeof_Synapse :: nat where "sizeof_Synapse = 48"
definition sizeof_pointer :: nat where "sizeof_pointer = 8"
definition sizeof_uint32 :: nat where "sizeof_uint32 = 4"
definition sizeof_float :: nat where "sizeof_float = 4"

subsection \<open>Neurons (\<^verbatim>\<open>core/neuron.h\<close>, \<^verbatim>\<open>core/neuron.c\<close>)\<close>

type_synonym NeuronType = uint32
type_synonym ActivationFunction = uint32

definition EXCITATORY :: NeuronType where "EXCITATORY = 0"
definition INHIBITORY :: NeuronType where "INHIBITORY = 1"

definition LINEAR :: ActivationFunction where "LINEAR = 0"
definition SIGMOID :: ActivationFunction where "SIGMOID = 1"
definition RELU :: ActivationFunction where "RELU = 2"
definition TANH :: ActivationFunction where "TANH = 3"

text \<open>The struct \<^verbatim>\<open>Neuron\<close>. \<open>connected_neurons\<close> is the array together with
  \<^verbatim>\<open>num_connections\<close>, its length; \<^verbatim>\<open>user_data\<close> is never read or written.\<close>

record Neuron =
  n_id :: uint32
  n_type :: NeuronType
  activation :: ActivationFunction
  potential :: c_float
  threshold :: c_float
  rest_potential :: c_float
  refractory_period :: c_float
  last_fired :: c_float
  connected_neurons :: "uint32 list"

definition neuron_init :: "uint32 \<Rightarrow> NeuronType \<Rightarrow> ActivationFunction \<Rightarrow> Neuron" where
  "neuron_init i ty act =
     \<lparr> n_id = i, n_type = ty, activation = act,
       potential = - 70, threshold = - 55, rest_potential = - 70,
       refractory_period = 2, last_fired = - 1000, connected_neurons = [] \<rparr>"

text \<open>\<^verbatim>\<open>neuron_create\<close>: NULL when the allocation fails, the initialised neuron otherwise.\<close>

definition neuron_create :: "host \<Rightarrow> uint32 \<Rightarrow> NeuronType \<Rightarrow> ActivationFunction \<Rightarrow> Neuron option" where
  "neuron_create h i ty act =
     (if \<not> mm_alloc h sizeof_Neuron then None else Some (neuron_init i ty act))"

text \<open>\<^verbatim>\<open>neuron_connect\<close> on two non-NULL neurons: the return code and the source neuron.
  The requested size is computed as the source does, \<^verbatim>\<open>num_connections + 1\<close> in
  \<^verbatim>\<open>uint32_t\<close> arithmetic.\<close>

definition neuron_connect :: "host \<Rightarrow> Neuron \<Rightarrow> Neuron \<Rightarrow> int \<times> Neuron" where
  "neuron_connect h source target =
     (if n_id target \<in> set (connected_neurons source) then (0, source)
      else if \<not> mm_realloc h (connected_neurons source = [])
                 (((length (connected_neurons source) + 1) mod 2 ^ 32) * sizeof_uint32)
      then (- 1, source)
      else (0, source\<lparr>connected_neurons := connected_neurons source @ [n_id target]\<rparr>))"

definition apply_activation :: "ActivationFunction \<Rightarrow> c_float \<Rightarrow> c_float" where
  "apply_activation func v =
     (if func = LINEAR then v
      else if func = SIGMOID then 1 / (1 + exp (- v))
      else if func = RELU then (if v > 0 then v else 0)
      else if func = TANH then tanh v
      else v)"

text \<open>\<^verbatim>\<open>neuron_compute\<close> on a non-NULL neuron: the returned activation and the neuron.\<close>

definition leak_rate :: c_float where "leak_rate = 0.1"

definition neuron_compute :: "Neuron \<Rightarrow> c_float \<Rightarrow> c_float \<Rightarrow> c_float \<times> Neuron" where
  "neuron_compute neuron input dt =
     (let n1 = neuron\<lparr>potential := potential neuron + input * dt\<rparr>;
          n2 = n1\<lparr>potential := potential n1 * (1 - leak_rate) + rest_potential n1 * leak_rate\<rparr>
      in (apply_activation (activation n2) (potential n2), n2))"

text \<open>\<^verbatim>\<open>neuron_fire\<close> on a non-NULL neuron: whether it fired (the C result 1 or 0) and
  the neuron.\<close>

definition neuron_fire :: "Neuron \<Rightarrow> c_float \<Rightarrow> bool \<times> Neuron" where
  "neuron_fire neuron current_time =
     (if fl32 (current_time - last_fired neuron) < refractory_period neuron then (False, neuron)
      else if potential neuron \<ge> threshold neuron
      then (True, neuron\<lparr>last_fired := current_time, potential := rest_potential neuron\<rparr>)
      else (False, neuron))"

definition neuron_reset :: "Neuron \<Rightarrow> Neuron" where
  "neuron_reset neuron = neuron\<lparr>potential := rest_potential neuron, last_fired := - 1000\<rparr>"

subsection \<open>Synapses (\<^verbatim>\<open>core/synapse.h\<close>, \<^verbatim>\<open>core/synapse.c\<close>)\<close>

type_synonym SynapseType = uint32
type_synonym PlasticityType = uint32

definition EXCITATORY_SYNAPSE :: SynapseType where "EXCITATORY_SYNAPSE = 0"
definition INHIBITORY_SYNAPSE :: SynapseType where "INHIBITORY_SYNAPSE = 1"
definition MODULATORY_SYNAPSE :: SynapseType where "MODULATORY_SYNAPSE = 2"

definition STATIC :: PlasticityType where "STATIC = 0"
definition STDP :: PlasticityType where "STDP = 1"
definition HEBBIAN :: PlasticityType where "HEBBIAN = 2"
definition HOMEOSTATIC :: PlasticityType where "HOMEOSTATIC = 3"

record Synapse =
  s_id :: uint32
  pre_neuron_id :: uint32
  post_neuron_id :: uint32
  s_type :: SynapseType
  plasticity :: PlasticityType
  weight :: c_float
  delay :: c_float
  last_active :: c_float
  max_weight :: c_float
  min_weight :: c_float

definition synapse_init :: "uint32 \<Rightarrow> uint32 \<Rightarrow> uint32 \<Rightarrow> SynapseType \<Rightarrow> Synapse" where
  "synapse_init i pre_id post_id ty =
     \<lparr> s_id = i, pre_neuron_id = pre_id, post_neuron_id = post_id, s_type = ty,
       plasticity = STATIC,
       weight = (if ty = EXCITATORY_SYNAPSE then 0.5
                 else if ty = INHIBITORY_SYNAPSE then - 0.5
                 else 0.1),
       delay = 1, last_active = - 1000, max_weight = 1, min_weight = - 1 \<rparr>"

definition synapse_create :: "host \<Rightarrow> uint32 \<Rightarrow> uint32 \<Rightarrow> uint32 \<Rightarrow> SynapseType \<Rightarrow> Synapse option" where
  "synapse_create h i pre_id post_id ty =
     (if \<not> mm_alloc h sizeof_Synapse then None else Some (synapse_init i pre_id post_id ty))"

text \<open>\<^verbatim>\<open>synapse_activate\<close> on a non-NULL synapse: the returned signal and the synapse.\<close>

definition synapse_activate :: "Synapse \<Rightarrow> c_float \<Rightarrow> c_float \<Rightarrow> c_float \<times> Synapse" where
  "synapse_activate synapse input current_time =
     (if current_time < fl32 (last_active synapse + delay synapse) then (0, synapse)
      else (fl32 (input * weight synapse), synapse\<lparr>last_active := current_time\<rparr>))"

text \<open>\<^verbatim>\<open>synapse_update_weight\<close> on a non-NULL synapse. \<open>learning_rate\<close> is the binary32
  value of the literal \<^verbatim>\<open>0.01f\<close>; \<open>weight_change\<close> is the \<^verbatim>\<open>if\<close> statement that computes the
  local of that name from \<^verbatim>\<open>time_diff\<close>, \<open>enforce_bounds\<close> the one that clamps.\<close>

definition learning_rate :: c_float where "learning_rate = fl32 0.01"
definition time_constant :: c_float where "time_constant = 20"

definition weight_change :: "c_float \<Rightarrow> c_float" where
  "weight_change time_diff =
     (if time_diff > 0 then fl32 (learning_rate * expf (fl32 (- time_diff / time_constant)))
      else fl32 (- learning_rate * expf (fl32 (time_diff / time_constant))))"

definition enforce_bounds :: "Synapse \<Rightarrow> Synapse" where
  "enforce_bounds synapse =
     (if weight synapse > max_weight synapse then synapse\<lparr>weight := max_weight synapse\<rparr>
      else if weight synapse < min_weight synapse then synapse\<lparr>weight := min_weight synapse\<rparr>
      else synapse)"

definition synapse_update_weight :: "Synapse \<Rightarrow> c_float \<Rightarrow> c_float \<Rightarrow> Synapse" where
  "synapse_update_weight synapse pre_spike_time post_spike_time =
     (if plasticity synapse \<noteq> STDP then synapse
      else enforce_bounds
             (synapse\<lparr>weight :=
                        fl32 (weight synapse
                              + weight_change (fl32 (post_spike_time - pre_spike_time)))\<rparr>))"

definition synapse_reset :: "Synapse \<Rightarrow> Synapse" where
  "synapse_reset synapse = synapse\<lparr>last_active := - 1000\<rparr>"

text \<open>A caller that applies \<^verbatim>\<open>synapse_update_weight\<close> once for each pair of spike times
  (presynaptic, postsynaptic) of a list, in order.\<close>

definition update_all :: "(c_float \<times> c_float) list \<Rightarrow> Synapse \<Rightarrow> Synapse" where
  "update_all spikes s = fold (\<lambda>(pre_t, post_t) s'. synapse_update_weight s' pre_t post_t) spikes s"

subsection \<open>The store shared by \<^verbatim>\<open>runtime/exec.c\<close> and \<^verbatim>\<open>api/bridge.c\<close>\<close>

text \<open>
  Both files declare the same static globals, each its own copy; \<^verbatim>\<open>exec.c\<close> has
  \<^verbatim>\<open>g_running\<close> in addition. \<open>g_neurons\<close> is the array with \<^verbatim>\<open>g_neuron_count\<close>, its
  length (likewise \<open>g_synapses\<close>). The capacities and counts are C \<^verbatim>\<open>int\<close>s that the
  model leaves unbounded.
\<close>

record core_state =
  g_initialized :: bool
  g_neurons :: "Neuron list"
  g_neuron_capacity :: int
  g_synapses :: "Synapse list"
  g_synapse_capacity :: int
  g_simulation_time :: c_float

record exec_state = core_state +
  g_running :: bool

text \<open>The first slot a linear scan from index 0 stops at.\<close>

fun first_index :: "('a \<Rightarrow> bool) \<Rightarrow> 'a list \<Rightarrow> nat option" where
  "first_index P [] = None"
| "first_index P (x # xs) = (if P x then Some 0 else map_option Suc (first_index P xs))"

text \<open>The number of slots that scan examines (iterations of the \<^verbatim>\<open>for\<close> loop).\<close>

fun T_first_index :: "('a \<Rightarrow> bool) \<Rightarrow> 'a list \<Rightarrow> nat" where
  "T_first_index P [] = 0"
| "T_first_index P (x # xs) = (if P x then 1 else 1 + T_first_index P xs)"

text \<open>\<^verbatim>\<open>find_neuron\<close>, \<^verbatim>\<open>find_synapse\<close>: the slot of the first entry with the ID, NULL
  (\<open>None\<close>) when the loop runs out.\<close>

definition find_neuron :: "'a core_state_scheme \<Rightarrow> uint32 \<Rightarrow> nat option" where
  "find_neuron st i = first_index (\<lambda>n. n_id n = i) (g_neurons st)"

definition find_synapse :: "'a core_state_scheme \<Rightarrow> uint32 \<Rightarrow> nat option" where
  "find_synapse st i = first_index (\<lambda>s. s_id s = i) (g_synapses st)"

definition T_find_neuron :: "'a core_state_scheme \<Rightarrow> uint32 \<Rightarrow> nat" where
  "T_find_neuron st i = T_first_index (\<lambda>n. n_id n = i) (g_neurons st)"

text \<open>The \<^verbatim>\<open>for (s ...)\<close> loop of the propagation: the first synapse from \<open>pre_id\<close> to
  \<open>post_id\<close>, and the number of synapses it examines.\<close>

definition connects :: "uint32 \<Rightarrow> uint32 \<Rightarrow> Synapse \<Rightarrow> bool" where
  "connects pre_id post_id s = (pre_neuron_id s = pre_id \<and> post_neuron_id s = post_id)"

definition find_connection :: "'a core_state_scheme \<Rightarrow> uint32 \<Rightarrow> uint32 \<Rightarrow> nat option" where
  "find_connection st pre_id post_id = first_index (connects pre_id post_id) (g_synapses st)"

definition T_find_connection :: "'a core_state_scheme \<Rightarrow> uint32 \<Rightarrow> uint32 \<Rightarrow> nat" where
  "T_find_connection st pre_id post_id = T_first_index (connects pre_id post_id) (g_synapses st)"

subsection \<open>One simulation step (the loops common to both files)\<close>

text \<open>
  The body of the \<^verbatim>\<open>for (j ...)\<close> loop for the fired neuron in slot \<open>i\<close> and one entry
  \<open>target_id\<close> of its connection array: look the target up, look the synapse up, activate
  it with input 1.0 and add the signal to the target's potential. \<^verbatim>\<open>bridge.c\<close> writes the
  target lookup as an inline loop with the same first-match result.
\<close>

definition propagate_to :: "nat \<Rightarrow> uint32 \<Rightarrow> 'a core_state_scheme \<Rightarrow> 'a core_state_scheme" where
  "propagate_to i target_id st =
     (case find_neuron st target_id of
        None \<Rightarrow> st
      | Some k \<Rightarrow>
          (case find_connection st (n_id (g_neurons st ! i)) target_id of
             None \<Rightarrow> st
           | Some s \<Rightarrow>
               (let (signal, syn) = synapse_activate (g_synapses st ! s) 1 (g_simulation_time st);
                    st1 = st\<lparr>g_synapses := (g_synapses st)[s := syn]\<rparr>;
                    target = g_neurons st1 ! k
                in st1\<lparr>g_neurons :=
                         (g_neurons st1)[k := target\<lparr>potential := potential target + signal\<rparr>]\<rparr>)))"

text \<open>The \<^verbatim>\<open>for (j ...)\<close> loop. Nothing in its body changes the connection array of a
  neuron, so the entries it visits are those the array holds when the loop starts.\<close>

definition propagate :: "nat \<Rightarrow> 'a core_state_scheme \<Rightarrow> 'a core_state_scheme" where
  "propagate i st = fold (propagate_to i) (connected_neurons (g_neurons st ! i)) st"

text \<open>The body of the \<^verbatim>\<open>for (i ...)\<close> loop for slot \<open>i\<close>: compute with input 0.0, test
  for firing at the simulation time, propagate if the neuron fired. The result carries the
  value \<^verbatim>\<open>neuron_compute\<close> returned.\<close>

definition process_neuron :: "c_float \<Rightarrow> nat \<Rightarrow> 'a core_state_scheme \<Rightarrow> c_float \<times> 'a core_state_scheme" where
  "process_neuron dt i st =
     (let (out, n1) = neuron_compute (g_neurons st ! i) 0 dt;
          (fired, n2) = neuron_fire n1 (g_simulation_time st);
          st1 = st\<lparr>g_neurons := (g_neurons st)[i := n2]\<rparr>
      in (out, if fired then propagate i st1 else st1))"

subsection \<open>The command executor (\<^verbatim>\<open>runtime/exec.h\<close>, \<^verbatim>\<open>runtime/exec.c\<close>)\<close>

type_synonym command_type_t = int

definition CMD_NOOP :: command_type_t where "CMD_NOOP = 0"
definition CMD_CREATE_NEURON :: command_type_t where "CMD_CREATE_NEURON = 1"
definition CMD_DELETE_NEURON :: command_type_t where "CMD_DELETE_NEURON = 2"
definition CMD_CONNECT_NEURONS :: command_type_t where "CMD_CONNECT_NEURONS = 3"
definition CMD_CREATE_SYNAPSE :: command_type_t where "CMD_CREATE_SYNAPSE = 4"
definition CMD_RUN_SIMULATION :: command_type_t where "CMD_RUN_SIMULATION = 5"
definition CMD_RESET_SIMULATION :: command_type_t where "CMD_RESET_SIMULATION = 6"
definition CMD_GET_NEURON_STATE :: command_type_t where "CMD_GET_NEURON_STATE = 7"
definition CMD_SET_NEURON_PARAM :: command_type_t where "CMD_SET_NEURON_PARAM = 8"
definition CMD_GET_MEMORY_STATS :: command_type_t where "CMD_GET_MEMORY_STATS = 9"
definition CMD_SHUTDOWN :: command_type_t where "CMD_SHUTDOWN = 10"

text \<open>\<^verbatim>\<open>command_params_t\<close> (the fields \<^verbatim>\<open>data\<close> and \<^verbatim>\<open>data_size\<close> are never read) and
  \<^verbatim>\<open>command_result_t\<close> (its \<^verbatim>\<open>data\<close> and \<^verbatim>\<open>data_size\<close> stay zero). \<^verbatim>\<open>exec.c\<close> reads
  \<^verbatim>\<open>params->value\<close> in \<^verbatim>\<open>CMD_SET_NEURON_PARAM\<close>, a field the header does not declare;
  the record has it as \<open>p_value\<close>.\<close>

record command_params_t =
  p_neuron_id :: uint32
  p_neuron_type :: uint32
  p_activation_type :: uint32
  p_threshold :: c_float
  p_rest_potential :: c_float
  p_refractory_period :: c_float
  p_target_id :: uint32
  p_synapse_id :: uint32
  p_synapse_type :: uint32
  p_weight :: c_float
  p_delay :: c_float
  p_sim_time :: c_float
  p_time_step :: c_float
  p_num_steps :: uint32
  p_value :: c_float

record command_result_t =
  status :: int
  r_id :: uint32
  r_value :: c_float

definition result0 :: command_result_t where
  "result0 = \<lparr> status = 0, r_id = 0, r_value = 0 \<rparr>"

definition failure :: command_result_t where
  "failure = result0\<lparr>status := - 1\<rparr>"

text \<open>The state of the translation unit before \<^verbatim>\<open>exec_init\<close>: the static initialisers.\<close>

definition exec_start :: exec_state where
  "exec_start = \<lparr> g_initialized = False, g_neurons = [], g_neuron_capacity = 0,
                  g_synapses = [], g_synapse_capacity = 0, g_simulation_time = 0,
                  g_running = False \<rparr>"

definition exec_init :: "host \<Rightarrow> exec_state \<Rightarrow> int \<times> exec_state" where
  "exec_init h st =
     (if g_initialized st then (0, st)
      else
        (let st1 = st\<lparr>g_neuron_capacity := 100\<rparr> in
         if \<not> mm_alloc h (100 * sizeof_pointer) then (- 1, st1)
         else
           (let st2 = st1\<lparr>g_synapse_capacity := 500\<rparr> in
            if \<not> mm_alloc h (500 * sizeof_pointer) then (- 1, st2)
            else (0, st2\<lparr>g_neurons := [], g_synapses := [], g_simulation_time := 0,
                          g_initialized := True, g_running := True\<rparr>))))"

text \<open>\<^verbatim>\<open>case CMD_CREATE_NEURON\<close> with non-NULL parameters.\<close>

definition cmd_create_neuron :: "host \<Rightarrow> exec_state \<Rightarrow> command_params_t \<Rightarrow> command_result_t \<times> exec_state" where
  "cmd_create_neuron h st p =
     (if find_neuron st (p_neuron_id p) \<noteq> None then (failure, st)
      else
        (case neuron_create h (p_neuron_id p) (p_neuron_type p) (p_activation_type p) of
           None \<Rightarrow> (failure, st)
         | Some n0 \<Rightarrow>
             (let n1 = (if p_threshold p \<noteq> 0 then n0\<lparr>threshold := p_threshold p\<rparr> else n0);
                  n2 = (if p_rest_potential p \<noteq> 0
                        then n1\<lparr>rest_potential := p_rest_potential p\<rparr> else n1);
                  n3 = (if p_refractory_period p \<noteq> 0
                        then n2\<lparr>refractory_period := p_refractory_period p\<rparr> else n2)
              in if int (length (g_neurons st)) \<ge> g_neuron_capacity st
                 then
                   (if \<not> mm_realloc h False (nat (g_neuron_capacity st * 2) * sizeof_pointer)
                    then (failure, st)
                    else (result0\<lparr>status := 0, r_id := p_neuron_id p\<rparr>,
                          st\<lparr>g_neuron_capacity := g_neuron_capacity st * 2,
                             g_neurons := g_neurons st @ [n3]\<rparr>))
                 else (result0\<lparr>status := 0, r_id := p_neuron_id p\<rparr>,
                       st\<lparr>g_neurons := g_neurons st @ [n3]\<rparr>))))"

text \<open>\<^verbatim>\<open>case CMD_DELETE_NEURON\<close>: the slot found is removed and the slots after it move down
  by one.\<close>

definition cmd_delete_neuron :: "exec_state \<Rightarrow> command_params_t \<Rightarrow> command_result_t \<times> exec_state" where
  "cmd_delete_neuron st p =
     (case find_neuron st (p_neuron_id p) of
        None \<Rightarrow> (failure, st)
      | Some k \<Rightarrow>
          (result0\<lparr>status := 0\<rparr>,
           st\<lparr>g_neurons := take k (g_neurons st) @ drop (Suc k) (g_neurons st)\<rparr>))"

definition cmd_connect_neurons :: "host \<Rightarrow> exec_state \<Rightarrow> command_params_t \<Rightarrow> command_result_t \<times> exec_state" where
  "cmd_connect_neurons h st p =
     (case (find_neuron st (p_neuron_id p), find_neuron st (p_target_id p)) of
        (Some src, Some tgt) \<Rightarrow>
          (let (connect_result, source) = neuron_connect h (g_neurons st ! src) (g_neurons st ! tgt)
           in if connect_result \<noteq> 0 then (failure, st)
              else (result0\<lparr>status := 0\<rparr>, st\<lparr>g_neurons := (g_neurons st)[src := source]\<rparr>))
      | _ \<Rightarrow> (failure, st))"

text \<open>\<^verbatim>\<open>case CMD_CREATE_SYNAPSE\<close> with non-NULL parameters.\<close>

definition cmd_create_synapse :: "host \<Rightarrow> exec_state \<Rightarrow> command_params_t \<Rightarrow> command_result_t \<times> exec_state" where
  "cmd_create_synapse h st p =
     (if find_synapse st (p_synapse_id p) \<noteq> None then (failure, st)
      else if find_neuron st (p_neuron_id p) = None \<or> find_neuron st (p_target_id p) = None
      then (failure, st)
      else
        (case synapse_create h (p_synapse_id p) (p_neuron_id p) (p_target_id p) (p_synapse_type p) of
           None \<Rightarrow> (failure, st)
         | Some s0 \<Rightarrow>
             (let s1 = (if p_weight p \<noteq> 0 then s0\<lparr>weight := p_weight p\<rparr> else s0);
                  s2 = (if p_delay p \<noteq> 0 then s1\<lparr>delay := p_delay p\<rparr> else s1)
              in if int (length (g_synapses st)) \<ge> g_synapse_capacity st
                 then
                   (if \<not> mm_realloc h False (nat (g_synapse_capacity st * 2) * sizeof_pointer)
                    then (failure, st)
                    else (result0\<lparr>status := 0, r_id := p_synapse_id p\<rparr>,
                          st\<lparr>g_synapse_capacity := g_synapse_capacity st * 2,
                             g_synapses := g_synapses st @ [s2]\<rparr>))
                 else (result0\<lparr>status := 0, r_id := p_synapse_id p\<rparr>,
                       st\<lparr>g_synapses := g_synapses st @ [s2]\<rparr>))))"

text \<open>\<^verbatim>\<open>case CMD_RUN_SIMULATION\<close>: one pass of the \<^verbatim>\<open>for (step ...)\<close> loop advances the
  simulation time and visits the slots in increasing order; the value of
  \<^verbatim>\<open>neuron_compute\<close> is dropped.\<close>

definition sim_step :: "c_float \<Rightarrow> exec_state \<Rightarrow> exec_state" where
  "sim_step time_step st =
     (let st1 = st\<lparr>g_simulation_time := g_simulation_time st + time_step\<rparr>
      in fold (\<lambda>i s. snd (process_neuron time_step i s)) [0..<length (g_neurons st1)] st1)"

primrec run_steps :: "nat \<Rightarrow> c_float \<Rightarrow> exec_state \<Rightarrow> exec_state" where
  "run_steps 0 time_step st = st"
| "run_steps (Suc k) time_step st = run_steps k time_step (sim_step time_step st)"

definition cmd_run_simulation :: "exec_state \<Rightarrow> command_params_t \<Rightarrow> command_result_t \<times> exec_state" where
  "cmd_run_simulation st p =
     (let time_step = (if p_time_step p > 0 then p_time_step p else 1);
          num_steps = (if p_num_steps p > 0 then p_num_steps p else 1);
          st' = run_steps (unat num_steps) time_step st
      in (result0\<lparr>status := 0, r_value := g_simulation_time st'\<rparr>, st'))"

definition cmd_reset_simulation :: "exec_state \<Rightarrow> command_result_t \<times> exec_state" where
  "cmd_reset_simulation st =
     (result0\<lparr>status := 0\<rparr>,
      st\<lparr>g_neurons := map neuron_reset (g_neurons st),
         g_synapses := map synapse_reset (g_synapses st),
         g_simulation_time := 0\<rparr>)"

definition cmd_get_neuron_state :: "exec_state \<Rightarrow> command_params_t \<Rightarrow> command_result_t \<times> exec_state" where
  "cmd_get_neuron_state st p =
     (case find_neuron st (p_neuron_id p) of
        None \<Rightarrow> (failure, st)
      | Some k \<Rightarrow>
          (result0\<lparr>status := 0, r_id := n_id (g_neurons st ! k),
                   r_value := potential (g_neurons st ! k)\<rparr>, st))"

text \<open>\<^verbatim>\<open>case CMD_SET_NEURON_PARAM\<close>: \<^verbatim>\<open>target_id\<close> selects the field; an unknown selector
  returns the error at once.\<close>

definition cmd_set_neuron_param :: "exec_state \<Rightarrow> command_params_t \<Rightarrow> command_result_t \<times> exec_state" where
  "cmd_set_neuron_param st p =
     (case find_neuron st (p_neuron_id p) of
        None \<Rightarrow> (failure, st)
      | Some k \<Rightarrow>
          (let neuron = g_neurons st ! k; v = p_value p in
           if p_target_id p = 1
           then (result0\<lparr>status := 0\<rparr>, st\<lparr>g_neurons := (g_neurons st)[k := neuron\<lparr>threshold := v\<rparr>]\<rparr>)
           else if p_target_id p = 2
           then (result0\<lparr>status := 0\<rparr>, st\<lparr>g_neurons := (g_neurons st)[k := neuron\<lparr>rest_potential := v\<rparr>]\<rparr>)
           else if p_target_id p = 3
           then (result0\<lparr>status := 0\<rparr>, st\<lparr>g_neurons := (g_neurons st)[k := neuron\<lparr>refractory_period := v\<rparr>]\<rparr>)
           else if p_target_id p = 4
           then (result0\<lparr>status := 0\<rparr>, st\<lparr>g_neurons := (g_neurons st)[k := neuron\<lparr>potential := v\<rparr>]\<rparr>)
           else (failure, st)))"

text \<open>\<^verbatim>\<open>exec_command\<close>. A NULL \<^verbatim>\<open>params\<close> is \<open>None\<close>; the commands that read the
  parameters reject it.\<close>

definition exec_command :: "host \<Rightarrow> exec_state \<Rightarrow> command_type_t \<Rightarrow> command_params_t option \<Rightarrow> command_result_t \<times> exec_state" where
  "exec_command h st ty params =
     (if \<not> g_initialized st then (failure, st)
      else if \<not> g_running st then (failure, st)
      else if ty = CMD_NOOP then (result0\<lparr>status := 0\<rparr>, st)
      else if ty = CMD_CREATE_NEURON
      then (case params of None \<Rightarrow> (failure, st) | Some p \<Rightarrow> cmd_create_neuron h st p)
      else if ty = CMD_DELETE_NEURON
      then (case params of None \<Rightarrow> (failure, st) | Some p \<Rightarrow> cmd_delete_neuron st p)
      else if ty = CMD_CONNECT_NEURONS
      then (case params of None \<Rightarrow> (failure, st) | Some p \<Rightarrow> cmd_connect_neurons h st p)
      else if ty = CMD_CREATE_SYNAPSE
      then (case params of None \<Rightarrow> (failure, st) | Some p \<Rightarrow> cmd_create_synapse h st p)
      else if ty = CMD_RUN_SIMULATION
      then (case params of None \<Rightarrow> (failure, st) | Some p \<Rightarrow> cmd_run_simulation st p)
      else if ty = CMD_RESET_SIMULATION then cmd_reset_simulation st
      else if ty = CMD_GET_NEURON_STATE
      then (case params of None \<Rightarrow> (failure, st) | Some p \<Rightarrow> cmd_get_neuron_state st p)
      else if ty = CMD_SET_NEURON_PARAM
      then (case params of None \<Rightarrow> (failure, st) | Some p \<Rightarrow> cmd_set_neuron_param st p)
      else if ty = CMD_GET_MEMORY_STATS
      then (result0\<lparr>status := 0, r_value := real (used_memory h)\<rparr>, st)
      else if ty = CMD_SHUTDOWN then (result0\<lparr>status := 0\<rparr>, st\<lparr>g_running := False\<rparr>)
      else (failure, st))"

subsection \<open>The bridge (\<^verbatim>\<open>api/bridge.c\<close>)\<close>

text \<open>
  The JNI entry points on the bridge's own copy of the store. A \<^verbatim>\<open>jint\<close> ID reaches
  \<^verbatim>\<open>neuron_create\<close> converted to \<^verbatim>\<open>uint32_t\<close> and is taken as such; a returned
  \<^verbatim>\<open>jlong\<close> pointer is the slot of the object, 0 is \<open>None\<close>. Whether the JVM grants the
  result array of a step is an input (\<open>new_array_ok\<close>).
\<close>

definition bridge_start :: core_state where
  "bridge_start = \<lparr> g_initialized = False, g_neurons = [], g_neuron_capacity = 0,
                    g_synapses = [], g_synapse_capacity = 0, g_simulation_time = 0 \<rparr>"

definition Java_interop_NeuroBridge_initCore :: "host \<Rightarrow> core_state \<Rightarrow> int \<times> core_state" where
  "Java_interop_NeuroBridge_initCore h st =
     (if g_initialized st then (0, st)
      else
        (let st1 = st\<lparr>g_neuron_capacity := 100\<rparr> in
         if \<not> mm_alloc h (100 * sizeof_pointer) then (- 1, st1)
         else
           (let st2 = st1\<lparr>g_synapse_capacity := 500\<rparr> in
            if \<not> mm_alloc h (500 * sizeof_pointer) then (- 1, st2)
            else (1, st2\<lparr>g_neurons := [], g_synapses := [], g_simulation_time := 0,
                          g_initialized := True\<rparr>))))"

definition Java_interop_NeuroBridge_createNeuron ::
  "host \<Rightarrow> core_state \<Rightarrow> uint32 \<Rightarrow> NeuronType \<Rightarrow> ActivationFunction \<Rightarrow> nat option \<times> core_state" where
  "Java_interop_NeuroBridge_createNeuron h st i ty act =
     (if \<not> g_initialized st then (None, st)
      else if int (length (g_neurons st)) \<ge> g_neuron_capacity st
              \<and> \<not> mm_realloc h False (nat (g_neuron_capacity st * 2) * sizeof_pointer)
      then (None, st)
      else
        (let st1 = (if int (length (g_neurons st)) \<ge> g_neuron_capacity st
                    then st\<lparr>g_neuron_capacity := g_neuron_capacity st * 2\<rparr> else st)
         in case neuron_create h i ty act of
              None \<Rightarrow> (None, st1)
            | Some neuron \<Rightarrow>
                (Some (length (g_neurons st1)), st1\<lparr>g_neurons := g_neurons st1 @ [neuron]\<rparr>)))"

definition Java_interop_NeuroBridge_createSynapse ::
  "host \<Rightarrow> core_state \<Rightarrow> uint32 \<Rightarrow> uint32 \<Rightarrow> uint32 \<Rightarrow> SynapseType \<Rightarrow> nat option \<times> core_state" where
  "Java_interop_NeuroBridge_createSynapse h st i preId postId ty =
     (if \<not> g_initialized st then (None, st)
      else if int (length (g_synapses st)) \<ge> g_synapse_capacity st
              \<and> \<not> mm_realloc h False (nat (g_synapse_capacity st * 2) * sizeof_pointer)
      then (None, st)
      else
        (let st1 = (if int (length (g_synapses st)) \<ge> g_synapse_capacity st
                    then st\<lparr>g_synapse_capacity := g_synapse_capacity st * 2\<rparr> else st)
         in case synapse_create h i preId postId ty of
              None \<Rightarrow> (None, st1)
            | Some synapse \<Rightarrow>
                (Some (length (g_synapses st1)), st1\<lparr>g_synapses := g_synapses st1 @ [synapse]\<rparr>)))"

text \<open>The input loop of \<^verbatim>\<open>runSimulationStep\<close>: input \<open>i\<close> is added to the potential of
  slot \<open>i\<close>, for as many slots as there are inputs and neurons.\<close>

fun apply_inputs :: "Neuron list \<Rightarrow> c_float list \<Rightarrow> Neuron list" where
  "apply_inputs [] xs = []"
| "apply_inputs (n # ns) [] = n # ns"
| "apply_inputs (n # ns) (x # xs) = n\<lparr>potential := potential n + x\<rparr> # apply_inputs ns xs"

text \<open>The neuron loop of \<^verbatim>\<open>runSimulationStep\<close>: slots in increasing order, output \<open>i\<close> is
  what \<^verbatim>\<open>neuron_compute\<close> returned for slot \<open>i\<close>.\<close>

definition output_step :: "c_float \<Rightarrow> nat \<Rightarrow> c_float list \<times> core_state \<Rightarrow> c_float list \<times> core_state" where
  "output_step dt i acc =
     (let (out, s') = process_neuron dt i (snd acc) in (fst acc @ [out], s'))"

definition step_outputs :: "c_float \<Rightarrow> core_state \<Rightarrow> c_float list \<times> core_state" where
  "step_outputs dt st = fold (output_step dt) [0..<length (g_neurons st)] ([], st)"

definition Java_interop_NeuroBridge_runSimulationStep ::
  "host \<Rightarrow> bool \<Rightarrow> core_state \<Rightarrow> c_float list \<Rightarrow> c_float \<Rightarrow> c_float list option \<times> core_state" where
  "Java_interop_NeuroBridge_runSimulationStep h new_array_ok st inputs timeStep =
     (if \<not> g_initialized st then (None, st)
      else
        (let st1 = st\<lparr>g_neurons := apply_inputs (g_neurons st) inputs\<rparr>;
             st2 = st1\<lparr>g_simulation_time := g_simulation_time st1 + timeStep\<rparr>
         in if \<not> mm_alloc h (length (g_neurons st2) * sizeof_float) then (None, st2)
            else
              (let (outputs, st3) = step_outputs timeStep st2
               in if \<not> new_array_ok then (None, st3) else (Some outputs, st3))))"

subsection \<open>Example inputs\<close>

text \<open>A host that grants every request, the zero-initialised parameter block
  (\<^verbatim>\<open>command_params_t params = {0}\<close> of \<^verbatim>\<open>exec_process_buffer\<close>), the executor right after
  \<^verbatim>\<open>exec_init\<close>, the executor after the creation of neurons 1 and 2, and the bridge right
  after \<^verbatim>\<open>initCore\<close>.\<close>

definition host_ok :: host where
  "host_ok = \<lparr> malloc_ok = True, realloc_ok = True, used_memory = 0 \<rparr>"

definition params0 :: command_params_t where
  "params0 = \<lparr> p_neuron_id = 0, p_neuron_type = 0, p_activation_type = 0, p_threshold = 0,
               p_rest_potential = 0, p_refractory_period = 0, p_target_id = 0,
               p_synapse_id = 0, p_synapse_type = 0, p_weight = 0, p_delay = 0,
               p_sim_time = 0, p_time_step = 0, p_num_steps = 0, p_value = 0 \<rparr>"

definition exec_ready :: exec_state where
  "exec_ready = snd (exec_init host_ok exec_start)"

definition two_neurons :: exec_state where
  "two_neurons =
     snd (exec_command host_ok
            (snd (exec_command host_ok exec_ready CMD_CREATE_NEURON
                    (Some (params0\<lparr>p_neuron_id := 1\<rparr>))))
            CMD_CREATE_NEURON (Some (params0\<lparr>p_neuron_id := 2\<rparr>)))"

definition bridge_ready :: core_state where
  "bridge_ready = snd (Java_interop_NeuroBridge_initCore host_ok bridge_start)"

text \<open>A caller that issues a list of commands in order, and the network it builds from
  neurons 1, 2 and 9 by connecting 1 to 9 and to 2, deleting neuron 9, creating a synapse
  from 1 to 2 and raising the potential of neuron 1 to \<open>-50\<close>: the connection list of
  neuron 1 still names neuron 9.\<close>

definition exec_all :: "host \<Rightarrow> (command_type_t \<times> command_params_t) list \<Rightarrow> exec_state \<Rightarrow> exec_state" where
  "exec_all h cmds st = fold (\<lambda>(ty, p) s. snd (exec_command h s ty (Some p))) cmds st"

definition stale_net :: exec_state where
  "stale_net =
     exec_all host_ok
       [(CMD_CREATE_NEURON, params0\<lparr>p_neuron_id := 1\<rparr>),
        (CMD_CREATE_NEURON, params0\<lparr>p_neuron_id := 2\<rparr>),
        (CMD_CREATE_NEURON, params0\<lparr>p_neuron_id := 9\<rparr>),
        (CMD_CONNECT_NEURONS, params0\<lparr>p_neuron_id := 1, p_target_id := 9\<rparr>),
        (CMD_CONNECT_NEURONS, params0\<lparr>p_neuron_id := 1, p_target_id := 2\<rparr>),
        (CMD_DELETE_NEURON, params0\<lparr>p_neuron_id := 9\<rparr>),
        (CMD_CREATE_SYNAPSE, params0\<lparr>p_synapse_id := 1, p_neuron_id := 1, p_target_id := 2\<rparr>),
        (CMD_SET_NEURON_PARAM, params0\<lparr>p_neuron_id := 1, p_target_id := 4, p_value := - 50\<rparr>)]
       exec_ready"

section \<open>Properties of the binary32 rounding\<close>

text \<open>
  Rounding is monotone around every binary32 number: \<open>fl32\<close> never crosses one
  (\<open>fl32_ge\<close>, \<open>fl32_le\<close>) and leaves each of them unchanged (\<open>fl32_id\<close>).
  \<open>fl32_eval\<close> computes \<open>fl32\<close> once the binade of the argument is known.
\<close>

lemma round_even_ge:
  assumes "of_int n \<le> q"
  shows "n \<le> round_even q"
proof -
  have "n \<le> \<lfloor>q\<rfloor>" using assms by (simp add: le_floor_iff)
  then show ?thesis by (simp add: round_even_def Let_def)
qed

lemma round_even_le:
  assumes "q \<le> of_int n"
  shows "round_even q \<le> n"
proof (cases "q = of_int n")
  case True
  then show ?thesis by (simp add: round_even_def)
next
  case False
  with assms have "q < of_int n" by simp
  then have "\<lfloor>q\<rfloor> < n" by (simp add: floor_less_iff)
  then show ?thesis by (simp add: round_even_def Let_def)
qed



lemma spacing_pos: "0 < spacing k"
  by (simp add: spacing_def)

lemma spacing_add: "spacing (k + n) = 2 ^ n * spacing k"
  by (simp add: spacing_def power_add)

lemma spacing_mono: "j \<le> k \<Longrightarrow> spacing j \<le> spacing k"
  by (simp add: spacing_def divide_right_mono)

lemma grid_from_props:
  "j \<le> 253 \<Longrightarrow>
   j \<le> grid_from j a \<and> grid_from j a \<le> 253
   \<and> (grid_from j a = 253 \<or> a < spacing (grid_from j a + 24))
   \<and> (grid_from j a = j \<or> spacing (grid_from j a + 23) \<le> a)"
proof (induction j a rule: grid_from.induct)
  case (1 k a)
  show ?case
  proof (cases "253 \<le> k \<or> a < spacing (k + 24)")
    case True
    then have "grid_from k a = k" by (simp add: grid_from.simps)
    with True "1.prems" show ?thesis by auto
  next
    case False
    then have g: "grid_from k a = grid_from (Suc k) a" by (subst grid_from.simps) simp
    from False have s: "Suc k \<le> 253" by simp
    from False have low: "spacing (Suc k + 23) \<le> a" by (simp add: add.commute)
    from "1.IH" [OF False s]
    have ih: "Suc k \<le> grid_from (Suc k) a" "grid_from (Suc k) a \<le> 253"
      "grid_from (Suc k) a = 253 \<or> a < spacing (grid_from (Suc k) a + 24)"
      "grid_from (Suc k) a = Suc k \<or> spacing (grid_from (Suc k) a + 23) \<le> a"
      by blast+
    from ih(4) low have "spacing (grid_from (Suc k) a + 23) \<le> a"
      by (elim disjE) simp_all
    with ih(1,2,3) show ?thesis
      unfolding g by simp
  qed
qed

lemma grid_props:
  "grid x \<le> 253"
  "grid x = 253 \<or> \<bar>x\<bar> < spacing (grid x + 24)"
  "grid x = 0 \<or> spacing (grid x + 23) \<le> \<bar>x\<bar>"
  using grid_from_props [of 0 "\<bar>x\<bar>"] by (simp_all add: grid_def)

lemma grid_from_eq:
  assumes "k \<le> 253" "k = 0 \<or> spacing (k + 23) \<le> a" "k = 253 \<or> a < spacing (k + 24)"
    and "j \<le> k"
  shows "grid_from j a = k"
  using assms(4)
proof (induction "k - j" arbitrary: j)
  case 0
  then have "j = k" by simp
  with assms(1,3) show ?case by (subst grid_from.simps) auto
next
  case (Suc d)
  then have lt: "j < k" by simp
  with assms(2) have low: "spacing (k + 23) \<le> a" by simp
  have "spacing (j + 24) \<le> spacing (k + 23)"
    using lt by (intro spacing_mono) simp
  with low have "\<not> a < spacing (j + 24)" by linarith
  moreover have "\<not> 253 \<le> j" using lt assms(1) by simp
  ultimately have "grid_from j a = grid_from (Suc j) a" by (subst grid_from.simps) simp
  moreover have "grid_from (Suc j) a = k" using Suc lt by (intro Suc.hyps(1)) simp_all
  ultimately show ?case by simp
qed

lemma fl32_eval:
  assumes "k \<le> 253" "k = 0 \<or> spacing (k + 23) \<le> \<bar>x\<bar>" "k = 253 \<or> \<bar>x\<bar> < spacing (k + 24)"
  shows "fl32 x = of_int (round_even (x / spacing k)) * spacing k"
  using grid_from_eq [OF assms, of 0] by (simp add: fl32_def grid_def)

lemma fl32_0: "fl32 0 = 0"
  by (simp add: fl32_def round_even_def)

lemma on_grid:
  assumes "k \<le> e"
  shows "of_int m * spacing e = of_int (m * 2 ^ (e - k)) * spacing k"
  using spacing_add [of k "e - k"] assms by simp

lemma off_grid:
  assumes "\<bar>m\<bar> < 2 ^ 24" "e < k"
  shows "\<bar>of_int m * spacing e\<bar> < spacing (k + 23)"
proof -
  have "\<bar>of_int m :: real\<bar> < 2 ^ 24"
    using assms(1) by (metis of_int_abs of_int_less_numeral_power_cancel_iff)
  then have "\<bar>of_int m * spacing e\<bar> < 2 ^ 24 * spacing e"
    using spacing_pos [of e] by (simp add: abs_mult)
  also have "\<dots> = spacing (e + 24)" by (simp add: spacing_add)
  also have "\<dots> \<le> spacing (k + 23)"
    using assms(2) by (intro spacing_mono) simp
  finally show ?thesis .
qed

lemma fl32_ge:
  assumes "is_binary32 v" "v \<le> x"
  shows "v \<le> fl32 x"
proof -
  from assms(1) obtain m :: int and e :: nat
    where m: "\<bar>m\<bar> < 2 ^ 24" and v: "v = of_int m * spacing e"
    by (auto simp: is_binary32_def)
  define g where "g = spacing (grid x)"
  have g: "0 < g" by (simp add: g_def spacing_pos)
  have fl: "fl32 x = of_int (round_even (x / g)) * g" by (simp add: fl32_def g_def)
  show ?thesis
  proof (cases "grid x \<le> e")
    case True
    define n where "n = m * 2 ^ (e - grid x)"
    have vn: "v = of_int n * g" unfolding v g_def n_def by (rule on_grid [OF True])
    with assms(2) g have "of_int n \<le> x / g" by (simp add: pos_le_divide_eq)
    then have "n \<le> round_even (x / g)" by (rule round_even_ge)
    then have "(of_int n :: real) \<le> of_int (round_even (x / g))" by simp
    with g show ?thesis unfolding vn fl by (simp only: mult_le_cancel_right_pos)
  next
    case False
    then have lt: "e < grid x" by simp
    then have "grid x \<noteq> 0" by simp
    with grid_props(3) [of x] have low: "spacing (grid x + 23) \<le> \<bar>x\<bar>" by simp
    have small: "\<bar>v\<bar> < spacing (grid x + 23)" unfolding v by (rule off_grid [OF m lt])
    have s: "spacing (grid x + 23) = of_int (2 ^ 23) * g" by (simp add: spacing_add g_def)
    show ?thesis
    proof (cases "0 \<le> x")
      case True
      with low s g have "of_int (2 ^ 23) \<le> x / g" by (simp add: pos_le_divide_eq)
      then have "2 ^ 23 \<le> round_even (x / g)" by (rule round_even_ge)
      then have "(of_int (2 ^ 23) :: real) \<le> of_int (round_even (x / g))"
        by (simp only: of_int_le_iff)
      with g have "of_int (2 ^ 23) * g \<le> fl32 x" unfolding fl by (simp only: mult_le_cancel_right_pos)
      with small s show ?thesis by linarith
    next
      case False
      with low small assms(2) have False by linarith
      then show ?thesis ..
    qed
  qed
qed

lemma fl32_le:
  assumes "is_binary32 v" "x \<le> v"
  shows "fl32 x \<le> v"
proof -
  from assms(1) obtain m :: int and e :: nat
    where m: "\<bar>m\<bar> < 2 ^ 24" and v: "v = of_int m * spacing e"
    by (auto simp: is_binary32_def)
  define g where "g = spacing (grid x)"
  have g: "0 < g" by (simp add: g_def spacing_pos)
  have fl: "fl32 x = of_int (round_even (x / g)) * g" by (simp add: fl32_def g_def)
  show ?thesis
  proof (cases "grid x \<le> e")
    case True
    define n where "n = m * 2 ^ (e - grid x)"
    have vn: "v = of_int n * g" unfolding v g_def n_def by (rule on_grid [OF True])
    with assms(2) g have "x / g \<le> of_int n" by (simp add: pos_divide_le_eq)
    then have "round_even (x / g) \<le> n" by (rule round_even_le)
    then have "(of_int (round_even (x / g)) :: real) \<le> of_int n" by simp
    with g show ?thesis unfolding vn fl by (simp only: mult_le_cancel_right_pos)
  next
    case False
    then have lt: "e < grid x" by simp
    then have "grid x \<noteq> 0" by simp
    with grid_props(3) [of x] have low: "spacing (grid x + 23) \<le> \<bar>x\<bar>" by simp
    have small: "\<bar>v\<bar> < spacing (grid x + 23)" unfolding v by (rule off_grid [OF m lt])
    have s: "spacing (grid x + 23) = of_int (2 ^ 23) * g" by (simp add: spacing_add g_def)
    show ?thesis
    proof (cases "x \<le> 0")
      case True
      with low s have "x \<le> of_int (- (2 ^ 23)) * g" by simp
      with g have "x / g \<le> of_int (- (2 ^ 23))" by (simp only: pos_divide_le_eq)
      then have "round_even (x / g) \<le> - (2 ^ 23)" by (rule round_even_le)
      then have "(of_int (round_even (x / g)) :: real) \<le> of_int (- (2 ^ 23))"
        by (simp only: of_int_le_iff)
      with g have "fl32 x \<le> of_int (- (2 ^ 23)) * g" unfolding fl by (simp only: mult_le_cancel_right_pos)
      with small s show ?thesis by simp
    next
      case False
      with low small assms(2) have False by linarith
      then show ?thesis ..
    qed
  qed
qed

lemma fl32_id: "is_binary32 v \<Longrightarrow> fl32 v = v"
  using fl32_ge [of v v] fl32_le [of v v] by simp

lemma is_binary32I: "\<bar>m\<bar> < 2 ^ 24 \<Longrightarrow> k \<le> 253 \<Longrightarrow> v = of_int m * spacing k \<Longrightarrow> is_binary32 v"
  by (auto simp: is_binary32_def)


lemma is_binary32_int: "\<bar>m\<bar> < 2 ^ 24 \<Longrightarrow> is_binary32 (of_int m)"
  by (rule is_binary32I [of m 149]) (simp_all add: spacing_def)

lemma is_binary32_1: "is_binary32 1"
  using is_binary32_int [of 1] by simp

lemma is_binary32_numeral: "numeral n < (2 ^ 24 :: int) \<Longrightarrow> is_binary32 (numeral n)"
  using is_binary32_int [of "numeral n"] by simp

lemma is_binary32_neg_numeral: "numeral n < (2 ^ 24 :: int) \<Longrightarrow> is_binary32 (- numeral n)"
  using is_binary32_int [of "- numeral n"] by simp

lemma is_binary32_half: "is_binary32 (1 / 2)"
  by (rule is_binary32I [of 1 148]) (simp_all add: spacing_def)

lemma fl32_1: "fl32 1 = 1"
  by (rule fl32_id [OF is_binary32_1])

lemma fl32_numeral: "numeral n < (2 ^ 24 :: int) \<Longrightarrow> fl32 (numeral n) = numeral n"
  by (rule fl32_id [OF is_binary32_numeral])

lemma fl32_neg_numeral: "numeral n < (2 ^ 24 :: int) \<Longrightarrow> fl32 (- numeral n) = - numeral n"
  by (rule fl32_id [OF is_binary32_neg_numeral])

lemma fl32_half: "fl32 (1 / 2) = 1 / 2"
  by (rule fl32_id [OF is_binary32_half])

text \<open>Some roundings, with the values IEEE 754 gives them: the binary32 value of 0.1, two
  ties (to the even mantissa), the first integer that is not a binary32 number, and two
  subnormal results.\<close>

lemma fl32_examples:
  "fl32 0.1 = 13421773 / 2 ^ 27"
  "fl32 (1 + 1 / 2 ^ 24) = 1"
  "fl32 (1 + 3 / 2 ^ 24) = 1 + 1 / 2 ^ 22"
  "fl32 16777217 = 16777216"
  "fl32 (3 / 2 ^ 150) = 2 / 2 ^ 149"
  "fl32 (1 / 2 ^ 150) = 0"
proof -
  show "fl32 0.1 = 13421773 / 2 ^ 27"
    by (subst fl32_eval [of 122]) (simp_all add: round_even_def spacing_def)
  show "fl32 (1 + 1 / 2 ^ 24) = 1"
    by (subst fl32_eval [of 126]) (simp_all add: round_even_def spacing_def)
  show "fl32 (1 + 3 / 2 ^ 24) = 1 + 1 / 2 ^ 22"
    by (subst fl32_eval [of 126]) (simp_all add: round_even_def spacing_def)
  show "fl32 16777217 = 16777216"
    by (subst fl32_eval [of 150]) (simp_all add: round_even_def spacing_def)
  show "fl32 (3 / 2 ^ 150) = 2 / 2 ^ 149"
    by (subst fl32_eval [of 0]) (simp_all add: round_even_def spacing_def)
  show "fl32 (1 / 2 ^ 150) = 0"
    by (subst fl32_eval [of 0]) (simp_all add: round_even_def spacing_def)
qed


section \<open>Properties of the neuron model\<close>

lemma fl32_below_2: "fl32 (2 - 1 / 2 ^ 25) = 2"
  by (subst fl32_eval [of 126]) (simp_all add: round_even_def spacing_def)

text \<open>
  C1, as the claim states it, fails: the refractory test of \<^verbatim>\<open>neuron_fire\<close> compares the
  binary32 difference \<open>now - last_fired\<close>, which is rounded, with the refractory period.
  A neuron at its threshold with the default refractory period 2 that last fired at
  \<open>1 / 2 ^ 25\<close> is asked at time 2: the difference is below 2, so the claim has the call
  return false and change nothing, but the difference rounds to 2 and the neuron fires.
\<close>

theorem neuron_fire_counterexample:
  "is_binary32 (1 / 2 ^ 25)
   \<and> 2 - last_fired ((neuron_init 1 EXCITATORY LINEAR)\<lparr>potential := - 55, last_fired := 1 / 2 ^ 25\<rparr>)
       < refractory_period
           ((neuron_init 1 EXCITATORY LINEAR)\<lparr>potential := - 55, last_fired := 1 / 2 ^ 25\<rparr>)
   \<and> neuron_fire ((neuron_init 1 EXCITATORY LINEAR)\<lparr>potential := - 55, last_fired := 1 / 2 ^ 25\<rparr>) 2
       = (True, (neuron_init 1 EXCITATORY LINEAR)\<lparr>potential := - 70, last_fired := 2\<rparr>)"
proof -
  let ?n = "(neuron_init 1 EXCITATORY LINEAR)\<lparr>potential := - 55, last_fired := 1 / 2 ^ 25\<rparr>"
  have a: "is_binary32 (1 / 2 ^ 25)"
    by (rule is_binary32I [of 1 124]) (simp_all add: spacing_def)
  have b: "2 - last_fired ?n < refractory_period ?n"
    by (simp add: neuron_init_def)
  have "last_fired ?n = 1 / 2 ^ 25" by simp
  then have d: "fl32 (2 - last_fired ?n) = 2" by (simp only: fl32_below_2)
  have c: "neuron_fire ?n 2 = (True, (neuron_init 1 EXCITATORY LINEAR)\<lparr>potential := - 70, last_fired := 2\<rparr>)"
    unfolding neuron_fire_def d by (simp add: neuron_init_def)
  from a b c show ?thesis by (intro conjI)
qed

text \<open>
  C1, amended. With \<open>d\<close> the difference \<open>now - last_fired\<close> rounded to the nearest
  binary32 number, \<^verbatim>\<open>neuron_fire\<close> returns false and leaves the neuron unchanged when
  \<open>d < refractory_period\<close>, whatever the potential; otherwise a potential at or above the
  threshold sets \<open>last_fired\<close> to \<open>now\<close>, resets the potential to the rest potential and
  returns true, and a potential below the threshold returns false and changes nothing. A
  neuron whose potential equals the threshold fires when \<open>d \<ge> refractory_period\<close>; a
  neuron that fired at \<open>t0\<close> does not fire at a \<open>t1\<close> for which the rounded \<open>t1 - t0\<close> is
  below the refractory period, whatever potential \<open>p\<close> it has been given since. When the
  difference is itself a binary32 number, no rounding takes place and the test is the one
  of the claim.
\<close>

theorem neuron_fire_spec:
  "(fl32 (now - last_fired n) < refractory_period n \<longrightarrow> neuron_fire n now = (False, n))
   \<and> (\<not> fl32 (now - last_fired n) < refractory_period n \<and> potential n \<ge> threshold n \<longrightarrow>
        neuron_fire n now = (True, n\<lparr>last_fired := now, potential := rest_potential n\<rparr>))
   \<and> (\<not> fl32 (now - last_fired n) < refractory_period n \<and> \<not> potential n \<ge> threshold n \<longrightarrow>
        neuron_fire n now = (False, n))
   \<and> (potential n = threshold n \<and> fl32 (now - last_fired n) \<ge> refractory_period n \<longrightarrow>
        fst (neuron_fire n now)
        \<and> potential (snd (neuron_fire n now)) = rest_potential n
        \<and> last_fired (snd (neuron_fire n now)) = now)
   \<and> (fst (neuron_fire n t0) \<and> fl32 (t1 - t0) < refractory_period n \<longrightarrow>
        neuron_fire ((snd (neuron_fire n t0))\<lparr>potential := p\<rparr>) t1
          = (False, (snd (neuron_fire n t0))\<lparr>potential := p\<rparr>))
   \<and> (is_binary32 (now - last_fired n) \<and> now - last_fired n < refractory_period n \<longrightarrow>
        neuron_fire n now = (False, n))"
  by (simp add: neuron_fire_def fl32_id)

theorem neuron_fire_spec_witness:
  "neuron_fire ((neuron_init 1 EXCITATORY LINEAR)\<lparr>last_fired := 0, potential := 0\<rparr>) 1
     = (False, (neuron_init 1 EXCITATORY LINEAR)\<lparr>last_fired := 0, potential := 0\<rparr>)
   \<and> neuron_fire ((neuron_init 1 EXCITATORY LINEAR)\<lparr>potential := - 55\<rparr>) 1
     = (True, (neuron_init 1 EXCITATORY LINEAR)\<lparr>last_fired := 1, potential := - 70\<rparr>)
   \<and> neuron_fire (neuron_init 1 EXCITATORY LINEAR) 1 = (False, neuron_init 1 EXCITATORY LINEAR)
   \<and> neuron_fire ((neuron_init 1 EXCITATORY LINEAR)\<lparr>last_fired := 1, potential := 0\<rparr>) 2
     = (False, (neuron_init 1 EXCITATORY LINEAR)\<lparr>last_fired := 1, potential := 0\<rparr>)"
proof -
  let ?n = "neuron_init 1 EXCITATORY LINEAR"
  note fl = fl32_1 fl32_numeral is_binary32_1
  have a: "neuron_fire (?n\<lparr>last_fired := 0, potential := 0\<rparr>) 1
             = (False, ?n\<lparr>last_fired := 0, potential := 0\<rparr>)"
    using neuron_fire_spec [of 1 "?n\<lparr>last_fired := 0, potential := 0\<rparr>"]
    by (simp add: neuron_init_def fl)
  have b: "neuron_fire (?n\<lparr>potential := - 55\<rparr>) 1
             = (True, ?n\<lparr>last_fired := 1, potential := - 70\<rparr>)"
    using neuron_fire_spec [of 1 "?n\<lparr>potential := - 55\<rparr>"]
    by (simp add: neuron_init_def fl)
  have c: "neuron_fire ?n 1 = (False, ?n)"
    using neuron_fire_spec [of 1 ?n]
    by (simp add: neuron_init_def fl)
  have "fst (neuron_fire (?n\<lparr>potential := - 55\<rparr>) 1)
        \<and> fl32 (2 - 1) < refractory_period (?n\<lparr>potential := - 55\<rparr>)"
    using b by (simp add: neuron_init_def fl)
  then have "neuron_fire ((snd (neuron_fire (?n\<lparr>potential := - 55\<rparr>) 1))\<lparr>potential := 0\<rparr>) 2
               = (False, (snd (neuron_fire (?n\<lparr>potential := - 55\<rparr>) 1))\<lparr>potential := 0\<rparr>)"
    using neuron_fire_spec [of 1 "?n\<lparr>potential := - 55\<rparr>" 1 2 0]
    by blast
  then have d: "neuron_fire (?n\<lparr>last_fired := 1, potential := 0\<rparr>) 2
                  = (False, ?n\<lparr>last_fired := 1, potential := 0\<rparr>)"
    using b by (simp add: neuron_init_def)
  from a b c d show ?thesis by simp
qed



section \<open>Properties of the synapse model\<close>

lemma fl32_above_1001: "fl32 (1001 + 1 / 2 ^ 16) = 1001"
  by (subst fl32_eval [of 135]) (simp_all add: round_even_def spacing_def)

lemma fl32_underflow: "fl32 (1 / 2 ^ 100 * (1 / 2 ^ 100)) = 0"
  by (subst fl32_eval [of 0]) (simp_all add: round_even_def spacing_def)

text \<open>
  C3, as the claim states it, fails in three ways. A call at or after
  \<open>last_active + delay\<close> returns the product of the input and the weight, which is 0 when the
  input is 0: the freshly created excitatory synapse, activated with input 0 at time 0, is
  past its delay window, records the activation and returns 0. The delay test compares
  \<open>now\<close> with the binary32 sum \<open>last_active + delay\<close>, which is rounded: with
  \<open>last_active = 1000\<close> and \<open>delay = 1 + 1 / 2 ^ 16\<close> the call at time 1001 comes before
  \<open>last_active + delay\<close>, yet the sum rounds to 1001 and the call records the activation and
  returns the signal. And the product is rounded too: an input and a weight of
  \<open>1 / 2 ^ 100\<close> are both nonzero and their product underflows to 0.
\<close>

theorem synapse_activate_counterexample:
  "\<not> 0 < last_active (synapse_init 1 1 2 EXCITATORY_SYNAPSE)
           + delay (synapse_init 1 1 2 EXCITATORY_SYNAPSE)
   \<and> synapse_activate (synapse_init 1 1 2 EXCITATORY_SYNAPSE) 0 0
       = (0, (synapse_init 1 1 2 EXCITATORY_SYNAPSE)\<lparr>last_active := 0\<rparr>)
   \<and> is_binary32 (1 + 1 / 2 ^ 16)
   \<and> 1001 < last_active ((synapse_init 1 1 2 EXCITATORY_SYNAPSE)
                            \<lparr>last_active := 1000, delay := 1 + 1 / 2 ^ 16\<rparr>)
             + delay ((synapse_init 1 1 2 EXCITATORY_SYNAPSE)
                        \<lparr>last_active := 1000, delay := 1 + 1 / 2 ^ 16\<rparr>)
   \<and> synapse_activate ((synapse_init 1 1 2 EXCITATORY_SYNAPSE)
                          \<lparr>last_active := 1000, delay := 1 + 1 / 2 ^ 16\<rparr>) 1 1001
       = (1 / 2, (synapse_init 1 1 2 EXCITATORY_SYNAPSE)
                   \<lparr>last_active := 1001, delay := 1 + 1 / 2 ^ 16\<rparr>)
   \<and> is_binary32 (1 / 2 ^ 100)
   \<and> synapse_activate ((synapse_init 1 1 2 EXCITATORY_SYNAPSE)\<lparr>weight := 1 / 2 ^ 100\<rparr>)
         (1 / 2 ^ 100) 0
       = (0, (synapse_init 1 1 2 EXCITATORY_SYNAPSE)\<lparr>weight := 1 / 2 ^ 100, last_active := 0\<rparr>)"
proof -
  let ?s = "synapse_init 1 1 2 EXCITATORY_SYNAPSE"
  let ?late = "?s\<lparr>last_active := 1000, delay := 1 + 1 / 2 ^ 16\<rparr>"
  let ?tiny = "?s\<lparr>weight := 1 / 2 ^ 100\<rparr>"
  have a: "\<not> 0 < last_active ?s + delay ?s"
    by (simp add: synapse_init_def)
  have "last_active ?s + delay ?s = - 999" by (simp add: synapse_init_def)
  then have "fl32 (last_active ?s + delay ?s) = - 999" by (simp add: fl32_neg_numeral)
  then have b: "synapse_activate ?s 0 0 = (0, ?s\<lparr>last_active := 0\<rparr>)"
    unfolding synapse_activate_def by (simp add: fl32_0)
  have c: "is_binary32 (1 + 1 / 2 ^ 16)"
    by (rule is_binary32I [of 65537 133]) (simp_all add: spacing_def)
  have d: "1001 < last_active ?late + delay ?late"
    by simp
  have "last_active ?late + delay ?late = 1001 + 1 / 2 ^ 16" by simp
  then have g: "fl32 (last_active ?late + delay ?late) = 1001"
    by (simp only: fl32_above_1001)
  have "1 * weight ?late = 1 / 2"
    by (simp add: synapse_init_def EXCITATORY_SYNAPSE_def)
  then have p: "fl32 (1 * weight ?late) = 1 / 2" by (simp only: fl32_half)
  have e: "synapse_activate ?late 1 1001
             = (1 / 2, ?s\<lparr>last_active := 1001, delay := 1 + 1 / 2 ^ 16\<rparr>)"
    unfolding synapse_activate_def g p by (simp add: synapse_init_def)
  have f: "is_binary32 (1 / 2 ^ 100)"
    by (rule is_binary32I [of 1 49]) (simp_all add: spacing_def)
  have "last_active ?tiny + delay ?tiny = - 999" by (simp add: synapse_init_def)
  then have g': "fl32 (last_active ?tiny + delay ?tiny) = - 999" by (simp add: fl32_neg_numeral)
  have "1 / 2 ^ 100 * weight ?tiny = 1 / 2 ^ 100 * (1 / 2 ^ 100)" by simp
  then have p': "fl32 (1 / 2 ^ 100 * weight ?tiny) = 0" by (simp only: fl32_underflow)
  have h: "synapse_activate ?tiny (1 / 2 ^ 100) 0 = (0, ?s\<lparr>weight := 1 / 2 ^ 100, last_active := 0\<rparr>)"
    unfolding synapse_activate_def g' p' by simp
  from a b c d e f h show ?thesis by (intro conjI)
qed

text \<open>
  C3, amended. With \<open>t\<close> the sum \<open>last_active + delay\<close> rounded to the nearest binary32
  number, \<^verbatim>\<open>synapse_activate\<close> returns 0 and leaves the synapse unchanged when \<open>now < t\<close>;
  otherwise it sets \<open>last_active\<close> to \<open>now\<close> and returns the product \<open>input * weight\<close>
  rounded to the nearest binary32 number, which is 0 when the input or the weight is 0.
  When the sum and the product are themselves binary32 numbers, no rounding takes place:
  the test is \<open>now < last_active + delay\<close> and the value returned is \<open>input * weight\<close>.
\<close>

theorem synapse_activate_spec:
  "(now < fl32 (last_active s + delay s) \<longrightarrow> synapse_activate s input now = (0, s))
   \<and> (\<not> now < fl32 (last_active s + delay s) \<longrightarrow>
        synapse_activate s input now = (fl32 (input * weight s), s\<lparr>last_active := now\<rparr>))
   \<and> (\<not> now < fl32 (last_active s + delay s) \<and> (input = 0 \<or> weight s = 0) \<longrightarrow>
        fst (synapse_activate s input now) = 0)
   \<and> (is_binary32 (last_active s + delay s) \<and> now < last_active s + delay s \<longrightarrow>
        synapse_activate s input now = (0, s))
   \<and> (is_binary32 (last_active s + delay s) \<and> is_binary32 (input * weight s)
        \<and> \<not> now < last_active s + delay s \<longrightarrow>
        synapse_activate s input now = (input * weight s, s\<lparr>last_active := now\<rparr>))"
  by (auto simp: synapse_activate_def fl32_id fl32_0)

theorem synapse_activate_spec_witness:
  "synapse_activate ((synapse_init 1 1 2 EXCITATORY_SYNAPSE)\<lparr>last_active := 0\<rparr>) 1 (1 / 2)
     = (0, (synapse_init 1 1 2 EXCITATORY_SYNAPSE)\<lparr>last_active := 0\<rparr>)
   \<and> synapse_activate ((synapse_init 1 1 2 EXCITATORY_SYNAPSE)\<lparr>last_active := 0\<rparr>) 1 1
     = (1 / 2, (synapse_init 1 1 2 EXCITATORY_SYNAPSE)\<lparr>last_active := 1\<rparr>)
   \<and> fst (synapse_activate ((synapse_init 1 1 2 EXCITATORY_SYNAPSE)\<lparr>last_active := 0\<rparr>) 0 1) = 0"
proof -
  let ?s = "(synapse_init 1 1 2 EXCITATORY_SYNAPSE)\<lparr>last_active := 0\<rparr>"
  note fl = fl32_1 fl32_half is_binary32_1 is_binary32_half
  have a: "synapse_activate ?s 1 (1 / 2) = (0, ?s)"
    using synapse_activate_spec [of "1 / 2" ?s 1]
    by (simp add: synapse_init_def fl)
  have b: "synapse_activate ?s 1 1 = (1 / 2, (synapse_init 1 1 2 EXCITATORY_SYNAPSE)\<lparr>last_active := 1\<rparr>)"
    using synapse_activate_spec [of 1 ?s 1]
    by (simp add: synapse_init_def EXCITATORY_SYNAPSE_def fl)
  have c: "fst (synapse_activate ?s 0 1) = 0"
    using synapse_activate_spec [of 1 ?s 0, THEN conjunct2, THEN conjunct2, THEN conjunct1]
    by (simp add: synapse_init_def fl)
  from a b c show ?thesis by simp
qed


subsection \<open>The weight update\<close>



lemma learning_rate_value: "learning_rate = 5368709 / 2 ^ 29"
  unfolding learning_rate_def
  by (subst fl32_eval [of 119]) (simp_all add: round_even_def spacing_def)





lemma enforce_bounds_fields:
  "max_weight (enforce_bounds s) = max_weight s" "min_weight (enforce_bounds s) = min_weight s"
  "plasticity (enforce_bounds s) = plasticity s"
  by (simp_all add: enforce_bounds_def)


lemma synapse_update_weight_fields:
  "max_weight (synapse_update_weight s a b) = max_weight s"
  "min_weight (synapse_update_weight s a b) = min_weight s"
  "plasticity (synapse_update_weight s a b) = plasticity s"
  by (simp_all add: synapse_update_weight_def enforce_bounds_fields)




lemma update_all_fields:
  "max_weight (update_all ps s) = max_weight s \<and> min_weight (update_all ps s) = min_weight s
   \<and> plasticity (update_all ps s) = plasticity s"
  unfolding update_all_def
  by (induction ps arbitrary: s) (auto simp: synapse_update_weight_fields)



text \<open>The two spike-time differences of the claim.\<close>

lemma time_diff_5: "fl32 (15 - 10) = 5" "fl32 (10 - 15) = - 5"
  by (simp_all add: fl32_numeral fl32_neg_numeral)

lemma update_10_15:
  "plasticity s = STDP \<Longrightarrow>
   synapse_update_weight s 10 15 = enforce_bounds (s\<lparr>weight := fl32 (weight s + weight_change 5)\<rparr>)"
  by (simp only: synapse_update_weight_def time_diff_5 simp_thms if_False)

lemma update_15_10:
  "plasticity s = STDP \<Longrightarrow>
   synapse_update_weight s 15 10 = enforce_bounds (s\<lparr>weight := fl32 (weight s + weight_change (- 5))\<rparr>)"
  by (simp only: synapse_update_weight_def time_diff_5 simp_thms if_False)








text \<open>At the default weight 0.5 the two updates of the claim do move the weight: the change
  is at least \<open>3 / 512\<close> in magnitude, far above the spacing of the binary32 numbers
  around 0.5.\<close>

lemma weight_change_5_low: "3 / 512 \<le> weight_change 5"
proof -
  have q: "is_binary32 (- (1 / 4))"
    by (rule is_binary32I [of "- 1" 147]) (simp_all add: spacing_def)
  have h: "is_binary32 (3 / 4)"
    by (rule is_binary32I [of 3 147]) (simp_all add: spacing_def)
  have l: "is_binary32 (1 / 128)"
    by (rule is_binary32I [of 1 142]) (simp_all add: spacing_def)
  have r: "is_binary32 (3 / 512)"
    by (rule is_binary32I [of 3 140]) (simp_all add: spacing_def)
  have "1 + (- (1 / 4)) \<le> exp (- (1 / 4) :: real)" by (rule exp_ge_add_one_self)
  then have "3 / 4 \<le> exp (- (1 / 4) :: real)" by simp
  then have e: "3 / 4 \<le> expf (- (1 / 4))" unfolding expf_def by (rule fl32_ge [OF h])
  have lr: "1 / 128 \<le> learning_rate" unfolding learning_rate_def by (rule fl32_ge [OF l]) simp
  have "1 / 128 * (3 / 4) \<le> learning_rate * expf (- (1 / 4))"
    using lr e by (intro mult_mono) simp_all
  then have "3 / 512 \<le> learning_rate * expf (- (1 / 4))" by simp
  then have "3 / 512 \<le> fl32 (learning_rate * expf (- (1 / 4)))" by (rule fl32_ge [OF r])
  moreover have "fl32 (- 5 / time_constant) = - (1 / 4)"
    using fl32_id [OF q] by (simp add: time_constant_def)
  ultimately show ?thesis by (simp add: weight_change_def)
qed

lemma weight_change_m5_high: "weight_change (- 5) \<le> - (3 / 512)"
proof -
  have q: "is_binary32 (- (1 / 4))"
    by (rule is_binary32I [of "- 1" 147]) (simp_all add: spacing_def)
  have h: "is_binary32 (3 / 4)"
    by (rule is_binary32I [of 3 147]) (simp_all add: spacing_def)
  have l: "is_binary32 (1 / 128)"
    by (rule is_binary32I [of 1 142]) (simp_all add: spacing_def)
  have r: "is_binary32 (- (3 / 512))"
    by (rule is_binary32I [of "- 3" 140]) (simp_all add: spacing_def)
  have "1 + (- (1 / 4)) \<le> exp (- (1 / 4) :: real)" by (rule exp_ge_add_one_self)
  then have "3 / 4 \<le> exp (- (1 / 4) :: real)" by simp
  then have e: "3 / 4 \<le> expf (- (1 / 4))" unfolding expf_def by (rule fl32_ge [OF h])
  have lr: "1 / 128 \<le> learning_rate" unfolding learning_rate_def by (rule fl32_ge [OF l]) simp
  have "1 / 128 * (3 / 4) \<le> learning_rate * expf (- (1 / 4))"
    using lr e by (intro mult_mono) simp_all
  then have "- learning_rate * expf (- (1 / 4)) \<le> - (3 / 512)" by simp
  then have "fl32 (- learning_rate * expf (- (1 / 4))) \<le> - (3 / 512)" by (rule fl32_le [OF r])
  moreover have "fl32 (- 5 / time_constant) = - (1 / 4)"
    using fl32_id [OF q] by (simp add: time_constant_def)
  ultimately show ?thesis by (simp add: weight_change_def)
qed

lemma stdp_default_weight_moves:
  "1 / 2 < weight (synapse_update_weight
                     ((synapse_init 1 1 2 EXCITATORY_SYNAPSE)\<lparr>plasticity := STDP\<rparr>) 10 15)
   \<and> weight (synapse_update_weight
               ((synapse_init 1 1 2 EXCITATORY_SYNAPSE)\<lparr>plasticity := STDP\<rparr>) 15 10) < 1 / 2"
proof -
  let ?s = "(synapse_init 1 1 2 EXCITATORY_SYNAPSE)\<lparr>plasticity := STDP\<rparr>"
  have u: "is_binary32 (259 / 512)"
    by (rule is_binary32I [of 259 140]) (simp_all add: spacing_def)
  have l: "is_binary32 (253 / 512)"
    by (rule is_binary32I [of 253 140]) (simp_all add: spacing_def)
  have "259 / 512 \<le> fl32 (1 / 2 + weight_change 5)"
    using weight_change_5_low by (intro fl32_ge [OF u]) simp
  then have a: "1 / 2 < weight (synapse_update_weight ?s 10 15)"
    by (simp add: update_10_15 enforce_bounds_def synapse_init_def EXCITATORY_SYNAPSE_def)
  have "fl32 (1 / 2 + weight_change (- 5)) \<le> 253 / 512"
    using weight_change_m5_high by (intro fl32_le [OF l]) simp
  then have b: "weight (synapse_update_weight ?s 15 10) < 1 / 2"
    by (simp add: update_15_10 enforce_bounds_def synapse_init_def EXCITATORY_SYNAPSE_def)
  from a b show ?thesis ..
qed



section \<open>Properties of the store\<close>

lemmas CMD_defs =
  CMD_NOOP_def CMD_CREATE_NEURON_def CMD_DELETE_NEURON_def CMD_CONNECT_NEURONS_def
  CMD_CREATE_SYNAPSE_def CMD_RUN_SIMULATION_def CMD_RESET_SIMULATION_def
  CMD_GET_NEURON_STATE_def CMD_SET_NEURON_PARAM_def CMD_GET_MEMORY_STATS_def CMD_SHUTDOWN_def

lemmas alloc_defs =
  mm_alloc_def mm_realloc_def sizeof_Neuron_def sizeof_Synapse_def sizeof_pointer_def
  sizeof_uint32_def sizeof_float_def

lemmas example_defs = host_ok_def params0_def result0_def failure_def

lemma exec_all_Cons:
  "exec_all h ((ty, p) # cmds) st = exec_all h cmds (snd (exec_command h st ty (Some p)))"
  by (simp add: exec_all_def)

lemma exec_all_Nil: "exec_all h [] st = st"
  by (simp add: exec_all_def)

subsection \<open>Linear scans\<close>

lemma first_index_None: "first_index P xs = None \<longleftrightarrow> (\<forall>x \<in> set xs. \<not> P x)"
  by (induction xs) auto

lemma first_index_Some:
  "first_index P xs = Some k \<Longrightarrow> k < length xs \<and> P (xs ! k) \<and> (\<forall>j < k. \<not> P (xs ! j))"
proof (induction xs arbitrary: k)
  case Nil
  then show ?case by simp
next
  case (Cons x xs)
  show ?case
  proof (cases "P x")
    case True
    with Cons.prems show ?thesis by simp
  next
    case False
    with Cons.prems obtain k' where k': "first_index P xs = Some k'" "k = Suc k'"
      by auto
    from Cons.IH [OF k'(1)] False k'(2) show ?thesis
      by (auto simp: nth_Cons split: nat.splits)
  qed
qed

lemma first_index_append:
  "first_index P (xs @ ys) =
     (case first_index P xs of
        Some k \<Rightarrow> Some k
      | None \<Rightarrow> map_option (\<lambda>k. length xs + k) (first_index P ys))"
  by (induction xs) (auto simp: map_option_case split: option.splits)

lemma first_index_cong: "map P xs = map P ys \<Longrightarrow> first_index P xs = first_index P ys"
proof (induction xs arbitrary: ys)
  case Nil
  then show ?case by simp
next
  case (Cons x xs)
  then obtain y ys' where "ys = y # ys'" by (cases ys) auto
  with Cons show ?case by auto
qed

lemma T_first_index_eq:
  "T_first_index P xs = (case first_index P xs of None \<Rightarrow> length xs | Some k \<Rightarrow> Suc k)"
  by (induction xs) (auto split: option.splits)

subsection \<open>Creation through the command executor\<close>

lemma status_failure: "status failure \<noteq> 0"
  by (simp add: failure_def result0_def)

lemma cmd_create_neuron_cases:
  "cmd_create_neuron h st p = (failure, st)
   \<or> (find_neuron st (p_neuron_id p) = None
      \<and> (\<exists>cap. cmd_create_neuron h st p =
            (result0\<lparr>status := 0, r_id := p_neuron_id p\<rparr>,
             st\<lparr>g_neuron_capacity := cap,
                g_neurons := g_neurons st @
                  [(neuron_init (p_neuron_id p) (p_neuron_type p) (p_activation_type p))
                     \<lparr>threshold := (if p_threshold p \<noteq> 0 then p_threshold p else - 55),
                      rest_potential :=
                        (if p_rest_potential p \<noteq> 0 then p_rest_potential p else - 70),
                      refractory_period :=
                        (if p_refractory_period p \<noteq> 0 then p_refractory_period p else 2)\<rparr>]\<rparr>)))"
proof (cases "find_neuron st (p_neuron_id p) = None \<and> mm_alloc h sizeof_Neuron")
  case False
  then show ?thesis
    by (auto simp: cmd_create_neuron_def neuron_create_def)
next
  case True
  let ?n = "(neuron_init (p_neuron_id p) (p_neuron_type p) (p_activation_type p))
              \<lparr>threshold := (if p_threshold p \<noteq> 0 then p_threshold p else - 55),
               rest_potential := (if p_rest_potential p \<noteq> 0 then p_rest_potential p else - 70),
               refractory_period :=
                 (if p_refractory_period p \<noteq> 0 then p_refractory_period p else 2)\<rparr>"
  have n: "(let n0 = neuron_init (p_neuron_id p) (p_neuron_type p) (p_activation_type p);
                n1 = (if p_threshold p \<noteq> 0 then n0\<lparr>threshold := p_threshold p\<rparr> else n0);
                n2 = (if p_rest_potential p \<noteq> 0
                      then n1\<lparr>rest_potential := p_rest_potential p\<rparr> else n1)
            in (if p_refractory_period p \<noteq> 0
                then n2\<lparr>refractory_period := p_refractory_period p\<rparr> else n2)) = ?n"
    by (simp add: neuron_init_def Let_def)
  show ?thesis
  proof (cases "int (length (g_neurons st)) \<ge> g_neuron_capacity st")
    case grow: True
    show ?thesis
    proof (cases "mm_realloc h False (nat (g_neuron_capacity st * 2) * sizeof_pointer)")
      case True
      with grow \<open>find_neuron st (p_neuron_id p) = None \<and> mm_alloc h sizeof_Neuron\<close> n
      have "cmd_create_neuron h st p =
              (result0\<lparr>status := 0, r_id := p_neuron_id p\<rparr>,
               st\<lparr>g_neuron_capacity := g_neuron_capacity st * 2,
                  g_neurons := g_neurons st @ [?n]\<rparr>)"
        by (simp add: cmd_create_neuron_def neuron_create_def Let_def)
      with \<open>find_neuron st (p_neuron_id p) = None \<and> mm_alloc h sizeof_Neuron\<close>
      show ?thesis by blast
    next
      case False
      with grow \<open>find_neuron st (p_neuron_id p) = None \<and> mm_alloc h sizeof_Neuron\<close>
      show ?thesis
        by (simp add: cmd_create_neuron_def neuron_create_def Let_def)
    qed
  next
    case False
    with \<open>find_neuron st (p_neuron_id p) = None \<and> mm_alloc h sizeof_Neuron\<close> n
    have "cmd_create_neuron h st p =
            (result0\<lparr>status := 0, r_id := p_neuron_id p\<rparr>,
             st\<lparr>g_neuron_capacity := g_neuron_capacity st,
                g_neurons := g_neurons st @ [?n]\<rparr>)"
      by (simp add: cmd_create_neuron_def neuron_create_def Let_def)
    with \<open>find_neuron st (p_neuron_id p) = None \<and> mm_alloc h sizeof_Neuron\<close>
    show ?thesis by blast
  qed
qed


lemma cmd_create_synapse_cases:
  "cmd_create_synapse h st p = (failure, st)
   \<or> (find_synapse st (p_synapse_id p) = None
      \<and> (\<exists>cap. cmd_create_synapse h st p =
            (result0\<lparr>status := 0, r_id := p_synapse_id p\<rparr>,
             st\<lparr>g_synapse_capacity := cap,
                g_synapses := g_synapses st @
                  [(synapse_init (p_synapse_id p) (p_neuron_id p) (p_target_id p) (p_synapse_type p))
                     \<lparr>weight :=
                        (if p_weight p \<noteq> 0 then p_weight p
                         else if p_synapse_type p = EXCITATORY_SYNAPSE then 0.5
                         else if p_synapse_type p = INHIBITORY_SYNAPSE then - 0.5
                         else 0.1),
                      delay := (if p_delay p \<noteq> 0 then p_delay p else 1)\<rparr>]\<rparr>)))"
proof (cases "find_synapse st (p_synapse_id p) = None
              \<and> \<not> (find_neuron st (p_neuron_id p) = None \<or> find_neuron st (p_target_id p) = None)
              \<and> mm_alloc h sizeof_Synapse")
  case False
  then show ?thesis
    by (auto simp: cmd_create_synapse_def synapse_create_def)
next
  case True
  then have ok: "find_synapse st (p_synapse_id p) = None"
    "(find_neuron st (p_neuron_id p) = None \<or> find_neuron st (p_target_id p) = None) = False"
    "mm_alloc h sizeof_Synapse"
    by simp_all
  let ?s = "(synapse_init (p_synapse_id p) (p_neuron_id p) (p_target_id p) (p_synapse_type p))
              \<lparr>weight :=
                 (if p_weight p \<noteq> 0 then p_weight p
                  else if p_synapse_type p = EXCITATORY_SYNAPSE then 0.5
                  else if p_synapse_type p = INHIBITORY_SYNAPSE then - 0.5
                  else 0.1),
               delay := (if p_delay p \<noteq> 0 then p_delay p else 1)\<rparr>"
  have s: "(let s0 = synapse_init (p_synapse_id p) (p_neuron_id p) (p_target_id p) (p_synapse_type p);
                s1 = (if p_weight p \<noteq> 0 then s0\<lparr>weight := p_weight p\<rparr> else s0)
            in (if p_delay p \<noteq> 0 then s1\<lparr>delay := p_delay p\<rparr> else s1)) = ?s"
    by (simp add: synapse_init_def Let_def)
  show ?thesis
  proof (cases "int (length (g_synapses st)) \<ge> g_synapse_capacity st")
    case grow: True
    show ?thesis
    proof (cases "mm_realloc h False (nat (g_synapse_capacity st * 2) * sizeof_pointer)")
      case True
      with grow s
      have "cmd_create_synapse h st p =
              (result0\<lparr>status := 0, r_id := p_synapse_id p\<rparr>,
               st\<lparr>g_synapse_capacity := g_synapse_capacity st * 2,
                  g_synapses := g_synapses st @ [?s]\<rparr>)"
        by (simp add: cmd_create_synapse_def synapse_create_def Let_def ok)
      with ok(1) show ?thesis by blast
    next
      case False
      with grow show ?thesis
        by (simp add: cmd_create_synapse_def synapse_create_def Let_def ok)
    qed
  next
    case False
    with s
    have "cmd_create_synapse h st p =
            (result0\<lparr>status := 0, r_id := p_synapse_id p\<rparr>,
             st\<lparr>g_synapse_capacity := g_synapse_capacity st,
                g_synapses := g_synapses st @ [?s]\<rparr>)"
      by (simp add: cmd_create_synapse_def synapse_create_def Let_def ok)
    with ok(1) show ?thesis by blast
  qed
qed

lemma exec_command_create_neuron:
  "exec_command h st CMD_CREATE_NEURON (Some p) =
     (if \<not> g_initialized st \<or> \<not> g_running st then (failure, st) else cmd_create_neuron h st p)"
  by (simp add: exec_command_def CMD_defs)

lemma exec_command_create_synapse:
  "exec_command h st CMD_CREATE_SYNAPSE (Some p) =
     (if \<not> g_initialized st \<or> \<not> g_running st then (failure, st) else cmd_create_synapse h st p)"
  by (simp add: exec_command_def CMD_defs)

lemma exec_ready_eq:
  "exec_ready = \<lparr> g_initialized = True, g_neurons = [], g_neuron_capacity = 100,
                  g_synapses = [], g_synapse_capacity = 500, g_simulation_time = 0,
                  g_running = True \<rparr>"
  by (simp add: exec_ready_def exec_init_def exec_start_def host_ok_def alloc_defs)

lemma create_neuron_1:
  "exec_command host_ok exec_ready CMD_CREATE_NEURON (Some (params0\<lparr>p_neuron_id := 1\<rparr>))
     = (result0\<lparr>status := 0, r_id := 1\<rparr>, exec_ready\<lparr>g_neurons := [neuron_init 1 0 0]\<rparr>)"
  by (simp add: exec_command_create_neuron cmd_create_neuron_def find_neuron_def
      neuron_create_def neuron_init_def exec_ready_eq example_defs alloc_defs)

lemma two_neurons_eq:
  "two_neurons = exec_ready\<lparr>g_neurons := [neuron_init 1 0 0, neuron_init 2 0 0]\<rparr>"
  by (simp add: two_neurons_def create_neuron_1)
     (simp add: exec_command_create_neuron cmd_create_neuron_def find_neuron_def
      neuron_create_def neuron_init_def exec_ready_eq example_defs alloc_defs)

text \<open>
  C10. In the create commands of the executor an override of exactly 0.0 counts as not
  given: a successful \<^verbatim>\<open>CMD_CREATE_NEURON\<close> appends a neuron whose threshold, rest
  potential and refractory period are the parameters where these are not 0 and the defaults
  \<open>-55\<close>, \<open>-70\<close> and \<open>2\<close> where they are, and a successful \<^verbatim>\<open>CMD_CREATE_SYNAPSE\<close>
  appends a synapse whose weight and delay are the parameters where these are not 0 and the
  defaults (the weight of the synapse type, delay \<open>1\<close>) where they are. So none of the
  five is 0 in an entity this interface has just created.
\<close>

theorem create_zero_override_keeps_default:
  "(status (fst (exec_command h st CMD_CREATE_NEURON (Some p))) = 0 \<longrightarrow>
      (\<exists>n. g_neurons (snd (exec_command h st CMD_CREATE_NEURON (Some p))) = g_neurons st @ [n]
          \<and> threshold n = (if p_threshold p = 0 then - 55 else p_threshold p)
          \<and> rest_potential n = (if p_rest_potential p = 0 then - 70 else p_rest_potential p)
          \<and> refractory_period n
              = (if p_refractory_period p = 0 then 2 else p_refractory_period p)
          \<and> threshold n \<noteq> 0 \<and> rest_potential n \<noteq> 0 \<and> refractory_period n \<noteq> 0))
   \<and> (status (fst (exec_command h st CMD_CREATE_SYNAPSE (Some p))) = 0 \<longrightarrow>
      (\<exists>s. g_synapses (snd (exec_command h st CMD_CREATE_SYNAPSE (Some p))) = g_synapses st @ [s]
          \<and> weight s = (if p_weight p = 0
                         then (if p_synapse_type p = EXCITATORY_SYNAPSE then 0.5
                               else if p_synapse_type p = INHIBITORY_SYNAPSE then - 0.5
                               else 0.1)
                         else p_weight p)
          \<and> delay s = (if p_delay p = 0 then 1 else p_delay p)
          \<and> weight s \<noteq> 0 \<and> delay s \<noteq> 0))"
proof (intro conjI impI)
  assume ok: "status (fst (exec_command h st CMD_CREATE_NEURON (Some p))) = 0"
  then have run: "exec_command h st CMD_CREATE_NEURON (Some p) = cmd_create_neuron h st p"
    using status_failure by (auto simp: exec_command_create_neuron split: if_splits)
  from ok run cmd_create_neuron_cases [of h st p] status_failure
  obtain cap n where
    "cmd_create_neuron h st p =
       (result0\<lparr>status := 0, r_id := p_neuron_id p\<rparr>,
        st\<lparr>g_neuron_capacity := cap, g_neurons := g_neurons st @ [n]\<rparr>)"
    "n = (neuron_init (p_neuron_id p) (p_neuron_type p) (p_activation_type p))
           \<lparr>threshold := (if p_threshold p \<noteq> 0 then p_threshold p else - 55),
            rest_potential := (if p_rest_potential p \<noteq> 0 then p_rest_potential p else - 70),
            refractory_period :=
              (if p_refractory_period p \<noteq> 0 then p_refractory_period p else 2)\<rparr>"
    by auto
  with run show "\<exists>n. g_neurons (snd (exec_command h st CMD_CREATE_NEURON (Some p))) = g_neurons st @ [n]
          \<and> threshold n = (if p_threshold p = 0 then - 55 else p_threshold p)
          \<and> rest_potential n = (if p_rest_potential p = 0 then - 70 else p_rest_potential p)
          \<and> refractory_period n
              = (if p_refractory_period p = 0 then 2 else p_refractory_period p)
          \<and> threshold n \<noteq> 0 \<and> rest_potential n \<noteq> 0 \<and> refractory_period n \<noteq> 0"
    by simp
next
  assume ok: "status (fst (exec_command h st CMD_CREATE_SYNAPSE (Some p))) = 0"
  then have run: "exec_command h st CMD_CREATE_SYNAPSE (Some p) = cmd_create_synapse h st p"
    using status_failure by (auto simp: exec_command_create_synapse split: if_splits)
  from ok run cmd_create_synapse_cases [of h st p] status_failure
  obtain cap s where
    "cmd_create_synapse h st p =
       (result0\<lparr>status := 0, r_id := p_synapse_id p\<rparr>,
        st\<lparr>g_synapse_capacity := cap, g_synapses := g_synapses st @ [s]\<rparr>)"
    "s = (synapse_init (p_synapse_id p) (p_neuron_id p) (p_target_id p) (p_synapse_type p))
           \<lparr>weight :=
              (if p_weight p \<noteq> 0 then p_weight p
               else if p_synapse_type p = EXCITATORY_SYNAPSE then 0.5
               else if p_synapse_type p = INHIBITORY_SYNAPSE then - 0.5
               else 0.1),
            delay := (if p_delay p \<noteq> 0 then p_delay p else 1)\<rparr>"
    by auto
  with run show "\<exists>s. g_synapses (snd (exec_command h st CMD_CREATE_SYNAPSE (Some p))) = g_synapses st @ [s]
          \<and> weight s = (if p_weight p = 0
                         then (if p_synapse_type p = EXCITATORY_SYNAPSE then 0.5
                               else if p_synapse_type p = INHIBITORY_SYNAPSE then - 0.5
                               else 0.1)
                         else p_weight p)
          \<and> delay s = (if p_delay p = 0 then 1 else p_delay p)
          \<and> weight s \<noteq> 0 \<and> delay s \<noteq> 0"
    by simp
qed


theorem create_zero_override_keeps_default_witness:
  "status (fst (exec_command host_ok exec_ready CMD_CREATE_NEURON
                  (Some (params0\<lparr>p_neuron_id := 1\<rparr>)))) = 0
   \<and> (\<exists>n. g_neurons (snd (exec_command host_ok exec_ready CMD_CREATE_NEURON
                               (Some (params0\<lparr>p_neuron_id := 1\<rparr>))))
              = g_neurons exec_ready @ [n]
          \<and> threshold n = - 55 \<and> rest_potential n = - 70 \<and> refractory_period n = 2)
   \<and> status (fst (exec_command host_ok two_neurons CMD_CREATE_SYNAPSE
                    (Some (params0\<lparr>p_synapse_id := 1, p_neuron_id := 1, p_target_id := 2\<rparr>)))) = 0
   \<and> (\<exists>s. g_synapses (snd (exec_command host_ok two_neurons CMD_CREATE_SYNAPSE
                    (Some (params0\<lparr>p_synapse_id := 1, p_neuron_id := 1, p_target_id := 2\<rparr>))))
              = g_synapses two_neurons @ [s]
          \<and> weight s = 1 / 2 \<and> delay s = 1)"
proof -
  let ?pn = "params0\<lparr>p_neuron_id := 1\<rparr>"
  let ?ps = "params0\<lparr>p_synapse_id := 1, p_neuron_id := 1, p_target_id := 2\<rparr>"
  have a: "status (fst (exec_command host_ok exec_ready CMD_CREATE_NEURON (Some ?pn))) = 0"
    by (simp add: create_neuron_1 result0_def)
  have b: "\<exists>n. g_neurons (snd (exec_command host_ok exec_ready CMD_CREATE_NEURON (Some ?pn)))
                = g_neurons exec_ready @ [n]
              \<and> threshold n = - 55 \<and> rest_potential n = - 70 \<and> refractory_period n = 2"
    using create_zero_override_keeps_default [of host_ok exec_ready ?pn, THEN conjunct1] a
    by (auto simp: params0_def)
  have c: "status (fst (exec_command host_ok two_neurons CMD_CREATE_SYNAPSE (Some ?ps))) = 0"
    by (simp add: exec_command_create_synapse cmd_create_synapse_def find_neuron_def
        find_synapse_def synapse_create_def neuron_init_def two_neurons_eq exec_ready_eq
        example_defs alloc_defs)
  have d: "\<exists>s. g_synapses (snd (exec_command host_ok two_neurons CMD_CREATE_SYNAPSE (Some ?ps)))
                = g_synapses two_neurons @ [s]
              \<and> weight s = 1 / 2 \<and> delay s = 1"
    using create_zero_override_keeps_default [of host_ok two_neurons ?ps, THEN conjunct2] c
    by (auto simp: params0_def EXCITATORY_SYNAPSE_def)
  from a b c d show ?thesis by blast
qed

subsection \<open>The weight bounds at creation\<close>

text \<open>
  C5 (the code departs from the claim). \<^verbatim>\<open>CMD_CREATE_SYNAPSE\<close> stores a weight override
  as it is: with \<^verbatim>\<open>weight = 5.0\<close> the command succeeds and the store holds a synapse of
  weight 5 whose \<open>max_weight\<close> is 1. Only \<^verbatim>\<open>synapse_update_weight\<close> enforces the bounds.
\<close>

theorem weight_override_out_of_bounds:
  "status (fst (exec_command host_ok two_neurons CMD_CREATE_SYNAPSE
                  (Some (params0\<lparr>p_synapse_id := 1, p_neuron_id := 1, p_target_id := 2,
                                 p_weight := 5\<rparr>)))) = 0
   \<and> map (\<lambda>s. (min_weight s, weight s, max_weight s))
         (g_synapses (snd (exec_command host_ok two_neurons CMD_CREATE_SYNAPSE
                  (Some (params0\<lparr>p_synapse_id := 1, p_neuron_id := 1, p_target_id := 2,
                                 p_weight := 5\<rparr>)))))
       = [(- 1, 5, 1)]"
  by (simp add: exec_command_create_synapse cmd_create_synapse_def find_neuron_def
      find_synapse_def synapse_create_def synapse_init_def neuron_init_def two_neurons_eq
      exec_ready_eq example_defs alloc_defs)

subsection \<open>Duplicate IDs\<close>

text \<open>
  The executor rejects the creation of a neuron whose ID is live and leaves the store as it
  is; an ID it has created is found from then on, also after further creations.
\<close>

lemma exec_create_duplicate_rejected:
  "find_neuron st (p_neuron_id p) \<noteq> None \<Longrightarrow>
   exec_command h st CMD_CREATE_NEURON (Some p) = (failure, st)"
  by (simp add: exec_command_create_neuron cmd_create_neuron_def)

lemma exec_create_then_find:
  assumes "status (fst (exec_command h st CMD_CREATE_NEURON (Some p))) = 0"
  shows "find_neuron (snd (exec_command h st CMD_CREATE_NEURON (Some p))) (p_neuron_id p)
           = Some (length (g_neurons st))"
proof -
  from assms have run: "exec_command h st CMD_CREATE_NEURON (Some p) = cmd_create_neuron h st p"
    using status_failure by (auto simp: exec_command_create_neuron split: if_splits)
  from assms run cmd_create_neuron_cases [of h st p] status_failure
  obtain cap n where c: "find_neuron st (p_neuron_id p) = None"
    "cmd_create_neuron h st p =
       (result0\<lparr>status := 0, r_id := p_neuron_id p\<rparr>,
        st\<lparr>g_neuron_capacity := cap, g_neurons := g_neurons st @ [n]\<rparr>)"
    "n_id n = p_neuron_id p"
    by (auto simp: neuron_init_def)
  have "find_neuron (st\<lparr>g_neuron_capacity := cap, g_neurons := g_neurons st @ [n]\<rparr>) (p_neuron_id p)
          = Some (length (g_neurons st))"
    using c(1,3) by (simp add: find_neuron_def first_index_append)
  with run c(2) show ?thesis by simp
qed

lemma exec_create_keeps_found:
  assumes "find_neuron st i = Some k"
  shows "find_neuron (snd (exec_command h st CMD_CREATE_NEURON params)) i = Some k"
proof (cases params)
  case None
  then show ?thesis using assms by (simp add: exec_command_def CMD_defs)
next
  case (Some p)
  from cmd_create_neuron_cases [of h st p] assms
  have "find_neuron (snd (cmd_create_neuron h st p)) i = Some k"
    by (auto simp: find_neuron_def first_index_append)
  with Some assms show ?thesis
    by (simp add: exec_command_create_neuron)
qed

text \<open>
  With a host that grants every request, a sequence of creations with pairwise distinct IDs
  none of which is live succeeds throughout, and every ID of the sequence is found at the
  end.
\<close>

lemma exec_create_succeeds:
  assumes "g_initialized st" "g_running st" "malloc_ok h" "realloc_ok h"
    and "0 < g_neuron_capacity st" and "find_neuron st (p_neuron_id p) = None"
  shows "status (fst (exec_command h st CMD_CREATE_NEURON (Some p))) = 0"
  using assms
  by (simp add: exec_command_create_neuron cmd_create_neuron_def neuron_create_def Let_def
      alloc_defs result0_def)

lemma exec_create_state:
  "g_initialized (snd (exec_command h st CMD_CREATE_NEURON (Some p))) = g_initialized st
   \<and> g_running (snd (exec_command h st CMD_CREATE_NEURON (Some p))) = g_running st
   \<and> (0 < g_neuron_capacity st \<longrightarrow>
        0 < g_neuron_capacity (snd (exec_command h st CMD_CREATE_NEURON (Some p))))"
proof -
  from cmd_create_neuron_cases [of h st p]
  have "g_initialized (snd (cmd_create_neuron h st p)) = g_initialized st
        \<and> g_running (snd (cmd_create_neuron h st p)) = g_running st"
    by auto
  moreover have "0 < g_neuron_capacity st \<longrightarrow> 0 < g_neuron_capacity (snd (cmd_create_neuron h st p))"
    by (simp add: cmd_create_neuron_def Let_def split: option.splits)
  ultimately show ?thesis
    by (simp add: exec_command_create_neuron)
qed

lemma exec_create_fresh:
  assumes "find_neuron st i = None" "i \<noteq> p_neuron_id p"
  shows "find_neuron (snd (exec_command h st CMD_CREATE_NEURON (Some p))) i = None"
proof -
  from cmd_create_neuron_cases [of h st p] assms
  have "find_neuron (snd (cmd_create_neuron h st p)) i = None"
    by (auto simp: find_neuron_def first_index_append neuron_init_def)
  with assms show ?thesis
    by (simp add: exec_command_create_neuron)
qed

lemma exec_all_keeps_found:
  "find_neuron st i = Some k \<Longrightarrow>
   find_neuron (exec_all h (map (Pair CMD_CREATE_NEURON) ps) st) i = Some k"
  by (induction ps arbitrary: st) (simp_all add: exec_all_Nil exec_all_Cons exec_create_keeps_found)

lemma exec_create_all_found:
  assumes "g_initialized st" "g_running st" "malloc_ok h" "realloc_ok h"
    and "0 < g_neuron_capacity st"
    and "distinct (map p_neuron_id ps)"
    and "\<forall>p \<in> set ps. find_neuron st (p_neuron_id p) = None"
  shows "\<forall>p \<in> set ps.
           find_neuron (exec_all h (map (Pair CMD_CREATE_NEURON) ps) st) (p_neuron_id p) \<noteq> None"
  using assms
proof (induction ps arbitrary: st)
  case Nil
  then show ?case by simp
next
  case (Cons q ps)
  let ?st = "snd (exec_command h st CMD_CREATE_NEURON (Some q))"
  have fresh: "find_neuron st (p_neuron_id q) = None"
    using Cons.prems(7) by simp
  have ok: "status (fst (exec_command h st CMD_CREATE_NEURON (Some q))) = 0"
    using Cons.prems(1-5) fresh by (rule exec_create_succeeds)
  have q: "find_neuron ?st (p_neuron_id q) = Some (length (g_neurons st))"
    using ok by (rule exec_create_then_find)
  have inv: "g_initialized ?st" "g_running ?st" "0 < g_neuron_capacity ?st"
    using exec_create_state [of h st q] Cons.prems(1,2,5) by simp_all
  have rest_fresh: "\<forall>p \<in> set ps. find_neuron ?st (p_neuron_id p) = None"
  proof
    fix p assume p: "p \<in> set ps"
    with Cons.prems(6) have "p_neuron_id p \<noteq> p_neuron_id q"
      by (metis distinct.simps(2) image_eqI list.simps(9) set_map)
    moreover from p Cons.prems(7) have "find_neuron st (p_neuron_id p) = None" by simp
    ultimately show "find_neuron ?st (p_neuron_id p) = None"
      by (simp add: exec_create_fresh)
  qed
  have "distinct (map p_neuron_id ps)"
    using Cons.prems(6) by simp
  from Cons.IH [OF inv(1,2) Cons.prems(3,4) inv(3) this rest_fresh]
  have rest: "\<forall>p \<in> set ps.
      find_neuron (exec_all h (map (Pair CMD_CREATE_NEURON) ps) ?st) (p_neuron_id p) \<noteq> None" .
  have first: "find_neuron (exec_all h (map (Pair CMD_CREATE_NEURON) ps) ?st) (p_neuron_id q) \<noteq> None"
    using exec_all_keeps_found [OF q] by simp
  from first rest show ?case
    by (simp add: exec_all_Cons)
qed

text \<open>
  The bridge appends the new neuron whatever IDs the store holds.
\<close>

lemma bridge_ready_eq:
  "bridge_ready = \<lparr> g_initialized = True, g_neurons = [], g_neuron_capacity = 100,
                    g_synapses = [], g_synapse_capacity = 500, g_simulation_time = 0 \<rparr>"
  by (simp add: bridge_ready_def Java_interop_NeuroBridge_initCore_def bridge_start_def
      host_ok_def alloc_defs)

lemma bridge_createNeuron_ignores_ids:
  "g_initialized st \<Longrightarrow> malloc_ok h \<Longrightarrow> int (length (g_neurons st)) < g_neuron_capacity st \<Longrightarrow>
   Java_interop_NeuroBridge_createNeuron h st i ty act =
     (Some (length (g_neurons st)), st\<lparr>g_neurons := g_neurons st @ [neuron_init i ty act]\<rparr>)"
  by (simp add: Java_interop_NeuroBridge_createNeuron_def neuron_create_def alloc_defs)

text \<open>
  C6 (the code departs from the claim). The bridge's \<^verbatim>\<open>createNeuron\<close> never looks an ID
  up: after \<^verbatim>\<open>initCore\<close>, creating neuron 1 succeeds, neuron 1 is then found, and creating
  neuron 1 again succeeds too and leaves two neurons with ID 1 in the store.
\<close>

theorem bridge_createNeuron_accepts_duplicate:
  "Java_interop_NeuroBridge_createNeuron host_ok bridge_ready 1 0 0
     = (Some 0, bridge_ready\<lparr>g_neurons := [neuron_init 1 0 0]\<rparr>)
   \<and> find_neuron (bridge_ready\<lparr>g_neurons := [neuron_init 1 0 0]\<rparr>) 1 = Some 0
   \<and> Java_interop_NeuroBridge_createNeuron host_ok
        (bridge_ready\<lparr>g_neurons := [neuron_init 1 0 0]\<rparr>) 1 0 0
     = (Some 1, bridge_ready\<lparr>g_neurons := [neuron_init 1 0 0, neuron_init 1 0 0]\<rparr>)"
  by (simp add: Java_interop_NeuroBridge_createNeuron_def neuron_create_def find_neuron_def
      neuron_init_def bridge_ready_eq host_ok_def alloc_defs)


section \<open>Properties of the simulation step\<close>

lemmas eval_defs =
  exec_command_def CMD_defs cmd_create_neuron_def cmd_delete_neuron_def
  cmd_connect_neurons_def cmd_create_synapse_def cmd_set_neuron_param_def
  find_neuron_def find_synapse_def neuron_create_def neuron_connect_def synapse_create_def
  neuron_init_def synapse_init_def example_defs alloc_defs

lemma stale_net_eq:
  "stale_net =
     exec_ready\<lparr>g_neurons := [(neuron_init 1 0 0)\<lparr>potential := - 50, connected_neurons := [9, 2]\<rparr>,
                              neuron_init 2 0 0],
                g_synapses := [synapse_init 1 1 2 0]\<rparr>"
proof -
  let ?s3 = "exec_ready\<lparr>g_neurons := [neuron_init 1 0 0, neuron_init 2 0 0, neuron_init 9 0 0]\<rparr>"
  let ?s5 = "exec_ready\<lparr>g_neurons := [(neuron_init 1 0 0)\<lparr>connected_neurons := [9, 2]\<rparr>,
                                       neuron_init 2 0 0, neuron_init 9 0 0]\<rparr>"
  let ?s6 = "exec_ready\<lparr>g_neurons := [(neuron_init 1 0 0)\<lparr>connected_neurons := [9, 2]\<rparr>,
                                       neuron_init 2 0 0]\<rparr>"
  let ?s7 = "?s6\<lparr>g_synapses := [synapse_init 1 1 2 0]\<rparr>"
  have a: "snd (exec_command host_ok two_neurons CMD_CREATE_NEURON
                  (Some (params0\<lparr>p_neuron_id := 9\<rparr>))) = ?s3"
    by (simp add: two_neurons_eq exec_ready_eq eval_defs)
  have b: "snd (exec_command host_ok
                  (snd (exec_command host_ok ?s3 CMD_CONNECT_NEURONS
                          (Some (params0\<lparr>p_neuron_id := 1, p_target_id := 9\<rparr>))))
                  CMD_CONNECT_NEURONS (Some (params0\<lparr>p_neuron_id := 1, p_target_id := 2\<rparr>)))
             = ?s5"
    by (simp add: exec_ready_eq eval_defs)
  have c: "snd (exec_command host_ok ?s5 CMD_DELETE_NEURON (Some (params0\<lparr>p_neuron_id := 9\<rparr>)))
             = ?s6"
    by (simp add: exec_ready_eq eval_defs)
  have d: "snd (exec_command host_ok ?s6 CMD_CREATE_SYNAPSE
                  (Some (params0\<lparr>p_synapse_id := 1, p_neuron_id := 1, p_target_id := 2\<rparr>)))
             = ?s7"
    by (simp add: exec_ready_eq eval_defs)
  have e: "snd (exec_command host_ok ?s7 CMD_SET_NEURON_PARAM
                  (Some (params0\<lparr>p_neuron_id := 1, p_target_id := 4, p_value := - 50\<rparr>)))
             = exec_ready\<lparr>g_neurons := [(neuron_init 1 0 0)\<lparr>potential := - 50,
                                                               connected_neurons := [9, 2]\<rparr>,
                                       neuron_init 2 0 0],
                          g_synapses := [synapse_init 1 1 2 0]\<rparr>"
    by (simp add: exec_ready_eq eval_defs)
  show ?thesis
    unfolding stale_net_def exec_all_Cons exec_all_Nil two_neurons_def [symmetric] a b c d e ..
qed


lemma map_list_update_same:
  assumes "f y = f (xs ! k)"
  shows "map f (xs[k := y]) = map f xs"
proof (cases "k < length xs")
  case True
  with assms show ?thesis by (simp add: map_update list_update_same_conv)
next
  case False
  then have "xs[k := y] = xs" by (intro list_update_beyond) simp
  then show ?thesis by simp
qed

lemma synapse_activate_endpoints:
  "pre_neuron_id (snd (synapse_activate s x t)) = pre_neuron_id s"
  "post_neuron_id (snd (synapse_activate s x t)) = post_neuron_id s"
  by (simp_all add: synapse_activate_def)

lemma propagate_to_skip:
  "find_neuron st t = None \<or> find_connection st (n_id (g_neurons st ! i)) t = None \<Longrightarrow>
   propagate_to i t st = st"
  by (auto simp: propagate_to_def split: option.splits)

lemma propagate_to_found:
  assumes "find_neuron st t = Some k"
    and "find_connection st (n_id (g_neurons st ! i)) t = Some s"
  shows "propagate_to i t st =
           st\<lparr>g_synapses := (g_synapses st)
                 [s := snd (synapse_activate (g_synapses st ! s) 1 (g_simulation_time st))],
              g_neurons := (g_neurons st)
                 [k := (g_neurons st ! k)
                    \<lparr>potential := potential (g_neurons st ! k)
                       + fst (synapse_activate (g_synapses st ! s) 1 (g_simulation_time st))\<rparr>]\<rparr>"
  using assms by (simp add: propagate_to_def Let_def case_prod_beta)

lemma propagate_to_cases:
  obtains (skip) "propagate_to i t st = st"
  | (found) k s where "find_neuron st t = Some k"
      "find_connection st (n_id (g_neurons st ! i)) t = Some s"
proof (cases "find_neuron st t")
  case None
  then show ?thesis using propagate_to_skip skip by blast
next
  case (Some k)
  show ?thesis
  proof (cases "find_connection st (n_id (g_neurons st ! i)) t")
    case None
    then show ?thesis using propagate_to_skip skip by blast
  next
    case (Some s)
    with \<open>find_neuron st t = Some k\<close> found show ?thesis by blast
  qed
qed

lemma propagate_to_neuron_ids:
  "map n_id (g_neurons (propagate_to i t st)) = map n_id (g_neurons st)"
proof (cases rule: propagate_to_cases [of i t st])
  case skip
  then show ?thesis by simp
next
  case (found k s)
  then show ?thesis
    by (simp add: propagate_to_found map_list_update_same)
qed

lemma propagate_to_endpoints:
  "map (\<lambda>s. (pre_neuron_id s, post_neuron_id s)) (g_synapses (propagate_to i t st))
     = map (\<lambda>s. (pre_neuron_id s, post_neuron_id s)) (g_synapses st)"
proof (cases rule: propagate_to_cases [of i t st])
  case skip
  then show ?thesis by simp
next
  case (found k s)
  then show ?thesis
    by (simp add: propagate_to_found map_list_update_same synapse_activate_endpoints)
qed

lemma find_neuron_ids:
  assumes "map n_id (g_neurons st') = map n_id (g_neurons st)"
  shows "find_neuron st' x = find_neuron st x"
proof -
  have "map (\<lambda>n. n_id n = x) (g_neurons st') = map (\<lambda>a. a = x) (map n_id (g_neurons st'))"
    by simp
  also have "\<dots> = map (\<lambda>n. n_id n = x) (g_neurons st)"
    by (simp add: assms)
  finally show ?thesis
    unfolding find_neuron_def by (rule first_index_cong)
qed

lemma find_connection_endpoints:
  assumes "map (\<lambda>s. (pre_neuron_id s, post_neuron_id s)) (g_synapses st')
             = map (\<lambda>s. (pre_neuron_id s, post_neuron_id s)) (g_synapses st)"
  shows "find_connection st' a b = find_connection st a b"
proof -
  have "map (connects a b) (g_synapses st')
          = map (\<lambda>e. e = (a, b)) (map (\<lambda>s. (pre_neuron_id s, post_neuron_id s)) (g_synapses st'))"
    by (simp add: connects_def)
  also have "\<dots> = map (connects a b) (g_synapses st)"
    by (simp add: assms connects_def)
  finally show ?thesis
    unfolding find_connection_def by (rule first_index_cong)
qed

lemma propagate_to_fired_id:
  "n_id (g_neurons (propagate_to i t st) ! i) = n_id (g_neurons st ! i)"
proof (cases rule: propagate_to_cases [of i t st])
  case skip
  then show ?thesis by simp
next
  case (found k s)
  from found(1) have "k < length (g_neurons st)"
    by (auto simp: find_neuron_def dest: first_index_Some)
  with found show ?thesis
    by (simp add: propagate_to_found nth_list_update)
qed

lemma propagate_to_unresolved_stays:
  assumes "find_neuron st t = None \<or> find_connection st (n_id (g_neurons st ! i)) t = None"
  shows "find_neuron (propagate_to i u st) t = None
         \<or> find_connection (propagate_to i u st) (n_id (g_neurons (propagate_to i u st) ! i)) t = None"
  using assms
  by (simp add: find_neuron_ids [OF propagate_to_neuron_ids]
      find_connection_endpoints [OF propagate_to_endpoints] propagate_to_fired_id)

lemma fold_propagate_to_skip:
  assumes "find_neuron st t = None \<or> find_connection st (n_id (g_neurons st ! i)) t = None"
  shows "fold (propagate_to i) (xs @ t # ys) st = fold (propagate_to i) (xs @ ys) st"
  using assms
proof (induction xs arbitrary: st)
  case Nil
  then show ?case by (simp add: propagate_to_skip)
next
  case (Cons x xs)
  from Cons.IH [OF propagate_to_unresolved_stays [OF Cons.prems]]
  show ?case by simp
qed


lemma exec_command_run_simulation:
  "g_initialized st \<Longrightarrow> g_running st \<Longrightarrow>
   exec_command h st CMD_RUN_SIMULATION (Some p) = cmd_run_simulation st p"
  by (simp add: exec_command_def CMD_defs)

lemma length_apply_inputs: "length (apply_inputs ns xs) = length ns"
  by (induction ns xs rule: apply_inputs.induct) simp_all

lemma length_fold_outputs:
  "length (fst (fold (output_step dt) js acc)) = length (fst acc) + length js"
  by (induction js arbitrary: acc) (simp_all add: output_step_def case_prod_beta)

lemma length_step_outputs: "length (fst (step_outputs dt st)) = length (g_neurons st)"
  by (simp add: step_outputs_def length_fold_outputs)

lemma bridge_step_returns_outputs:
  assumes "g_initialized st" "g_neurons st \<noteq> []" "malloc_ok h" "new_array_ok"
  shows "\<exists>outs. fst (Java_interop_NeuroBridge_runSimulationStep h new_array_ok st inputs dt)
                  = Some outs
              \<and> length outs = length (g_neurons st)"
proof -
  let ?st2 = "st\<lparr>g_neurons := apply_inputs (g_neurons st) inputs,
                 g_simulation_time := g_simulation_time st + dt\<rparr>"
  have "mm_alloc h (length (g_neurons st) * sizeof_float)"
    using assms(2,3) by (simp add: alloc_defs)
  then have "fst (Java_interop_NeuroBridge_runSimulationStep h new_array_ok st inputs dt)
          = Some (fst (step_outputs dt ?st2))"
    using assms(1,4)
    by (simp add: Java_interop_NeuroBridge_runSimulationStep_def Let_def length_apply_inputs
        case_prod_beta)
  moreover have "length (fst (step_outputs dt ?st2)) = length (g_neurons st)"
    by (simp add: length_step_outputs length_apply_inputs)
  ultimately show ?thesis by simp
qed

lemma exec_step_succeeds:
  "g_initialized st \<Longrightarrow> g_running st \<Longrightarrow>
   status (fst (exec_command h st CMD_RUN_SIMULATION (Some p))) = 0"
  by (simp add: exec_command_run_simulation cmd_run_simulation_def Let_def result0_def)

lemma propagate_skips_unresolved:
  assumes "find_neuron st t = None \<or> find_connection st (n_id (g_neurons st ! i)) t = None"
    and "connected_neurons (g_neurons st ! i) = xs @ t # ys"
  shows "propagate i st = fold (propagate_to i) (xs @ ys) st"
  using assms by (simp only: propagate_def fold_propagate_to_skip)

text \<open>The executor steps the network whose neuron 1 still names the deleted neuron 9:
  neuron 1 fires, the entry 9 is skipped, the entry 2 is delivered through the synapse.\<close>

lemma stale_net_propagate:
  "propagate 0
     (stale_net\<lparr>g_simulation_time := 1,
                g_neurons := [(neuron_init 1 0 0)\<lparr>last_fired := 1, connected_neurons := [9, 2]\<rparr>,
                              neuron_init 2 0 0]\<rparr>)
   = stale_net\<lparr>g_simulation_time := 1,
                g_neurons := [(neuron_init 1 0 0)\<lparr>last_fired := 1, connected_neurons := [9, 2]\<rparr>,
                              (neuron_init 2 0 0)\<lparr>potential := - (139 / 2)\<rparr>],
                g_synapses := [(synapse_init 1 1 2 0)\<lparr>last_active := 1\<rparr>]\<rparr>"
  by (simp add: stale_net_eq exec_ready_eq propagate_def propagate_to_def find_neuron_def
      find_connection_def connects_def synapse_activate_def neuron_init_def synapse_init_def
      EXCITATORY_SYNAPSE_def fl32_neg_numeral fl32_half)

lemma stale_net_slot0:
  "process_neuron 1 0 (stale_net\<lparr>g_simulation_time := 1\<rparr>)
   = (- 52,
      stale_net\<lparr>g_simulation_time := 1,
                g_neurons := [(neuron_init 1 0 0)\<lparr>last_fired := 1, connected_neurons := [9, 2]\<rparr>,
                              (neuron_init 2 0 0)\<lparr>potential := - (139 / 2)\<rparr>],
                g_synapses := [(synapse_init 1 1 2 0)\<lparr>last_active := 1\<rparr>]\<rparr>)"
proof -
  have c: "neuron_compute (g_neurons (stale_net\<lparr>g_simulation_time := 1\<rparr>) ! 0) 0 1
             = (- 52, (neuron_init 1 0 0)\<lparr>potential := - 52, connected_neurons := [9, 2]\<rparr>)"
    by (simp add: stale_net_eq exec_ready_eq neuron_compute_def apply_activation_def
        leak_rate_def neuron_init_def LINEAR_def)
  have f: "neuron_fire ((neuron_init 1 0 0)\<lparr>potential := - 52, connected_neurons := [9, 2]\<rparr>) 1
             = (True, (neuron_init 1 0 0)\<lparr>last_fired := 1, connected_neurons := [9, 2]\<rparr>)"
    by (simp add: neuron_fire_def neuron_init_def fl32_numeral)
  have u: "(g_neurons stale_net)
             [0 := (neuron_init 1 0 0)\<lparr>last_fired := 1, connected_neurons := [9, 2]\<rparr>]
           = [(neuron_init 1 0 0)\<lparr>last_fired := 1, connected_neurons := [9, 2]\<rparr>,
              neuron_init 2 0 0]"
    by (simp add: stale_net_eq exec_ready_eq)
  show ?thesis
    unfolding process_neuron_def c by (simp add: f u stale_net_propagate)
qed


lemma stale_net_slot1:
  "process_neuron 1 1
     (stale_net\<lparr>g_simulation_time := 1,
                g_neurons := [(neuron_init 1 0 0)\<lparr>last_fired := 1, connected_neurons := [9, 2]\<rparr>,
                              (neuron_init 2 0 0)\<lparr>potential := - (139 / 2)\<rparr>],
                g_synapses := [(synapse_init 1 1 2 0)\<lparr>last_active := 1\<rparr>]\<rparr>)
   = (- (1391 / 20),
      stale_net\<lparr>g_simulation_time := 1,
                g_neurons := [(neuron_init 1 0 0)\<lparr>last_fired := 1, connected_neurons := [9, 2]\<rparr>,
                              (neuron_init 2 0 0)\<lparr>potential := - (1391 / 20)\<rparr>],
                g_synapses := [(synapse_init 1 1 2 0)\<lparr>last_active := 1\<rparr>]\<rparr>)"
  by (simp add: process_neuron_def neuron_compute_def apply_activation_def leak_rate_def
      neuron_fire_def neuron_init_def LINEAR_def fl32_numeral)

lemma stale_net_run:
  "exec_command host_ok stale_net CMD_RUN_SIMULATION
     (Some (params0\<lparr>p_time_step := 1, p_num_steps := 1\<rparr>))
   = (result0\<lparr>status := 0, r_value := 1\<rparr>,
      stale_net\<lparr>g_simulation_time := 1,
                g_neurons := [(neuron_init 1 0 0)\<lparr>last_fired := 1, connected_neurons := [9, 2]\<rparr>,
                              (neuron_init 2 0 0)\<lparr>potential := - 69.55\<rparr>],
                g_synapses := [(synapse_init 1 1 2 0)\<lparr>last_active := 1\<rparr>]\<rparr>)"
proof -
  have i: "g_initialized stale_net" "g_running stale_net" "g_simulation_time stale_net = 0"
    "length (g_neurons stale_net) = 2"
    by (simp_all add: stale_net_eq exec_ready_eq)
  have s: "sim_step 1 stale_net
             = stale_net\<lparr>g_simulation_time := 1,
                g_neurons := [(neuron_init 1 0 0)\<lparr>last_fired := 1, connected_neurons := [9, 2]\<rparr>,
                              (neuron_init 2 0 0)\<lparr>potential := - 69.55\<rparr>],
                g_synapses := [(synapse_init 1 1 2 0)\<lparr>last_active := 1\<rparr>]\<rparr>"
    by (simp add: sim_step_def i upt_conv_Cons stale_net_slot0
        stale_net_slot1 [unfolded One_nat_def])
  show ?thesis
    by (simp add: exec_command_run_simulation i cmd_run_simulation_def params0_def s)
qed


text \<open>
  C7 (the code departs from the claim). An entry that names no neuron, or to which no
  synapse leads, is skipped by the step of the executor and by the step of the bridge
  (\<open>propagate_to_skip\<close>, \<open>propagate_skips_unresolved\<close>), and the step of the executor
  succeeds whenever the executor is initialised and running (\<open>exec_step_succeeds\<close>), on the
  empty store too. The step of the bridge does not: on the initialised bridge that holds
  no neuron yet, with a host that grants every request, \<^verbatim>\<open>runSimulationStep\<close> asks
  \<^verbatim>\<open>mm_alloc\<close> for an output array of zero bytes, takes the NULL it gets for an allocation
  failure and returns NULL, after it has advanced the clock.
\<close>

theorem bridge_step_fails_on_empty_store:
  "g_initialized bridge_ready \<and> g_neurons bridge_ready = [] \<and> malloc_ok host_ok
   \<and> Java_interop_NeuroBridge_runSimulationStep host_ok True bridge_ready [] 1
       = (None, bridge_ready\<lparr>g_simulation_time := 1\<rparr>)
   \<and> g_initialized exec_ready \<and> g_running exec_ready \<and> g_neurons exec_ready = []
   \<and> exec_command host_ok exec_ready CMD_RUN_SIMULATION
        (Some (params0\<lparr>p_time_step := 1, p_num_steps := 1\<rparr>))
       = (result0\<lparr>status := 0, r_value := 1\<rparr>, exec_ready\<lparr>g_simulation_time := 1\<rparr>)"
proof -
  have b: "Java_interop_NeuroBridge_runSimulationStep host_ok True bridge_ready [] 1
             = (None, bridge_ready\<lparr>g_simulation_time := 1\<rparr>)"
    by (simp add: Java_interop_NeuroBridge_runSimulationStep_def bridge_ready_eq host_ok_def
        alloc_defs)
  have s: "sim_step 1 exec_ready = exec_ready\<lparr>g_simulation_time := 1\<rparr>"
    by (simp add: sim_step_def exec_ready_eq)
  have e: "exec_command host_ok exec_ready CMD_RUN_SIMULATION
             (Some (params0\<lparr>p_time_step := 1, p_num_steps := 1\<rparr>))
           = (result0\<lparr>status := 0, r_value := 1\<rparr>, exec_ready\<lparr>g_simulation_time := 1\<rparr>)"
    by (simp add: exec_command_def CMD_defs cmd_run_simulation_def params0_def s)
       (simp add: exec_ready_eq)
  show ?thesis
    using b e by (simp add: bridge_ready_eq exec_ready_eq host_ok_def)
qed


section \<open>The cost of a lookup\<close>

lemma T_first_index_replicate: "\<not> P x \<Longrightarrow> T_first_index P (replicate n x) = n"
  by (induction n) simp_all

text \<open>
  C9, as the claim states it, fails: no constant bounds the number of slots
  \<^verbatim>\<open>find_neuron\<close> examines, nor the number of synapses the propagation examines to
  resolve a pair of endpoints. On a store of \<open>c + 1\<close> entries none of which matches, the
  scan examines all of them.
\<close>

theorem lookup_not_constant_counterexample:
  "\<not> (\<exists>c. \<forall>(st :: core_state) i. T_find_neuron st i \<le> c)
   \<and> \<not> (\<exists>c. \<forall>(st :: core_state) pre_id post_id. T_find_connection st pre_id post_id \<le> c)"
proof (intro conjI notI)
  assume "\<exists>c. \<forall>(st :: core_state) i. T_find_neuron st i \<le> c"
  then obtain c where c: "\<And>(st :: core_state) i. T_find_neuron st i \<le> c" by blast
  have "T_find_neuron (bridge_ready\<lparr>g_neurons := replicate (Suc c) (neuron_init 1 0 0)\<rparr>) 2 = Suc c"
    by (simp add: T_find_neuron_def T_first_index_replicate neuron_init_def)
  with c [of "bridge_ready\<lparr>g_neurons := replicate (Suc c) (neuron_init 1 0 0)\<rparr>" 2]
  show False by simp
next
  assume "\<exists>c. \<forall>(st :: core_state) pre_id post_id. T_find_connection st pre_id post_id \<le> c"
  then obtain c where
    c: "\<And>(st :: core_state) pre_id post_id. T_find_connection st pre_id post_id \<le> c" by blast
  have "T_find_connection
          (bridge_ready\<lparr>g_synapses := replicate (Suc c) (synapse_init 1 1 2 0)\<rparr>) 2 1 = Suc c"
    by (simp add: T_find_connection_def T_first_index_replicate synapse_init_def connects_def)
  with c [of "bridge_ready\<lparr>g_synapses := replicate (Suc c) (synapse_init 1 1 2 0)\<rparr>" 2 1]
  show False by simp
qed

text \<open>
  C9, amended. Lookup and synapse resolution are linear scans in slot order. \<^verbatim>\<open>find_neuron\<close>
  returns the first slot holding the ID, having examined that slot and all slots before
  it, and returns NULL exactly when no slot holds the ID, having examined every slot. The
  propagation resolves \<open>(pre_id, post_id)\<close> in the same way over the array of all synapses.
\<close>

theorem lookup_is_linear_scan:
  "T_find_neuron st i
     = (case find_neuron st i of None \<Rightarrow> length (g_neurons st) | Some k \<Rightarrow> Suc k)
   \<and> (find_neuron st i = None \<longleftrightarrow> (\<forall>n \<in> set (g_neurons st). n_id n \<noteq> i))
   \<and> (find_neuron st i = Some k \<longrightarrow>
        k < length (g_neurons st) \<and> n_id (g_neurons st ! k) = i
        \<and> (\<forall>j < k. n_id (g_neurons st ! j) \<noteq> i))
   \<and> T_find_connection st pre_id post_id
     = (case find_connection st pre_id post_id of
          None \<Rightarrow> length (g_synapses st) | Some s \<Rightarrow> Suc s)
   \<and> (find_connection st pre_id post_id = None \<longleftrightarrow>
        (\<forall>s \<in> set (g_synapses st). \<not> (pre_neuron_id s = pre_id \<and> post_neuron_id s = post_id)))
   \<and> (find_connection st pre_id post_id = Some s \<longrightarrow>
        s < length (g_synapses st)
        \<and> pre_neuron_id (g_synapses st ! s) = pre_id \<and> post_neuron_id (g_synapses st ! s) = post_id
        \<and> (\<forall>j < s. \<not> (pre_neuron_id (g_synapses st ! j) = pre_id
                        \<and> post_neuron_id (g_synapses st ! j) = post_id)))"
proof (intro conjI impI)
  show "T_find_neuron st i
          = (case find_neuron st i of None \<Rightarrow> length (g_neurons st) | Some k \<Rightarrow> Suc k)"
    by (simp add: T_find_neuron_def find_neuron_def T_first_index_eq)
  show "find_neuron st i = None \<longleftrightarrow> (\<forall>n \<in> set (g_neurons st). n_id n \<noteq> i)"
    by (simp add: find_neuron_def first_index_None)
  show "T_find_connection st pre_id post_id
          = (case find_connection st pre_id post_id of
               None \<Rightarrow> length (g_synapses st) | Some s \<Rightarrow> Suc s)"
    by (simp add: T_find_connection_def find_connection_def T_first_index_eq)
  show "find_connection st pre_id post_id = None \<longleftrightarrow>
        (\<forall>s \<in> set (g_synapses st). \<not> (pre_neuron_id s = pre_id \<and> post_neuron_id s = post_id))"
    by (simp add: find_connection_def first_index_None connects_def)
next
  assume "find_neuron st i = Some k"
  from first_index_Some [OF this [unfolded find_neuron_def]]
  show "k < length (g_neurons st)" "n_id (g_neurons st ! k) = i"
    "\<forall>j < k. n_id (g_neurons st ! j) \<noteq> i"
    by simp_all
next
  assume "find_connection st pre_id post_id = Some s"
  from first_index_Some [OF this [unfolded find_connection_def]]
  show "s < length (g_synapses st)" "pre_neuron_id (g_synapses st ! s) = pre_id"
    "post_neuron_id (g_synapses st ! s) = post_id"
    "\<forall>j < s. \<not> (pre_neuron_id (g_synapses st ! j) = pre_id
                  \<and> post_neuron_id (g_synapses st ! j) = post_id)"
    by (simp_all add: connects_def)
qed

theorem lookup_is_linear_scan_witness:
  "find_neuron stale_net 2 = Some 1 \<and> T_find_neuron stale_net 2 = 2
   \<and> find_neuron stale_net 9 = None \<and> T_find_neuron stale_net 9 = 2
   \<and> find_connection stale_net 1 2 = Some 0 \<and> T_find_connection stale_net 1 2 = 1
   \<and> find_connection stale_net 1 9 = None \<and> T_find_connection stale_net 1 9 = 1"
proof -
  have n: "\<forall>n \<in> set (g_neurons stale_net). n_id n \<noteq> 9"
    by (simp add: stale_net_eq exec_ready_eq neuron_init_def)
  have a: "find_neuron stale_net 9 = None"
    using lookup_is_linear_scan [of stale_net 9, THEN conjunct2, THEN conjunct1] n by blast
  have b: "T_find_neuron stale_net 9 = 2"
    using lookup_is_linear_scan [of stale_net 9, THEN conjunct1] a
    by (simp add: stale_net_eq exec_ready_eq)
  have c: "find_neuron stale_net 2 = Some 1"
    by (simp add: find_neuron_def stale_net_eq exec_ready_eq neuron_init_def)
  have d: "T_find_neuron stale_net 2 = 2"
    using lookup_is_linear_scan [of stale_net 2, THEN conjunct1] c by simp
  have s: "\<forall>s \<in> set (g_synapses stale_net). \<not> (pre_neuron_id s = 1 \<and> post_neuron_id s = 9)"
    by (simp add: stale_net_eq exec_ready_eq synapse_init_def)
  have e: "find_connection stale_net 1 9 = None"
    using lookup_is_linear_scan [of stale_net _ _ 1 9] s by blast
  have f: "T_find_connection stale_net 1 9 = 1"
    using lookup_is_linear_scan [of stale_net _ _ 1 9] e
    by (simp add: stale_net_eq exec_ready_eq)
  have g: "find_connection stale_net 1 2 = Some 0"
    by (simp add: find_connection_def connects_def stale_net_eq exec_ready_eq synapse_init_def)
  have h: "T_find_connection stale_net 1 2 = 1"
    using lookup_is_linear_scan [of stale_net _ _ 1 2] g by simp
  from a b c d e f g h show ?thesis by simp
qed

end
